theory Spec2Isabelle
  imports Complex_Main "HOL-Library.Word"
begin

unbundle bit_operations_syntax

section \<open>Values of the C types \<^verbatim>\<open>float\<close> and \<open>double\<close>\<close>

text \<open>
  The module computes in C \<^verbatim>\<open>float\<close> (with intermediate \<^verbatim>\<open>double\<close>).  A value is
  either finite, one of the two infinities, or not-a-number.  Finite values are exact
  reals here: rounding, overflow to infinity and the sign of zero are not modelled.
  The special values are kept, with the IEEE 754 rules for them, because the code
  divides by quantities that may be zero and tests \<^verbatim>\<open>qmag != qmag\<close>.  Where the
  range of \<^verbatim>\<open>float\<close> matters, in the renormalisation of the quaternion, the filter is
  given a second time below with every \<^verbatim>\<open>float\<close> result brought into that range.
\<close>

datatype c_float = Fin real | PInf | NInf | NaN

fun fneg :: "c_float \<Rightarrow> c_float" where
  "fneg (Fin a) = Fin (- a)"
| "fneg PInf = NInf"
| "fneg NInf = PInf"
| "fneg NaN = NaN"

fun fadd :: "c_float \<Rightarrow> c_float \<Rightarrow> c_float" where
  "fadd NaN y = NaN"
| "fadd x NaN = NaN"
| "fadd (Fin a) (Fin b) = Fin (a + b)"
| "fadd (Fin a) y = y"
| "fadd x (Fin b) = x"
| "fadd PInf PInf = PInf"
| "fadd NInf NInf = NInf"
| "fadd PInf NInf = NaN"
| "fadd NInf PInf = NaN"

fun fmul :: "c_float \<Rightarrow> c_float \<Rightarrow> c_float" where
  "fmul NaN y = NaN"
| "fmul x NaN = NaN"
| "fmul (Fin a) (Fin b) = Fin (a * b)"
| "fmul (Fin a) PInf = (if a = 0 then NaN else if 0 < a then PInf else NInf)"
| "fmul (Fin a) NInf = (if a = 0 then NaN else if 0 < a then NInf else PInf)"
| "fmul PInf (Fin b) = (if b = 0 then NaN else if 0 < b then PInf else NInf)"
| "fmul NInf (Fin b) = (if b = 0 then NaN else if 0 < b then NInf else PInf)"
| "fmul PInf PInf = PInf"
| "fmul PInf NInf = NInf"
| "fmul NInf PInf = NInf"
| "fmul NInf NInf = PInf"

text \<open>Division by a zero divisor gives an infinity, or NaN for \<open>0 / 0\<close>; it never traps.\<close>

fun fdiv :: "c_float \<Rightarrow> c_float \<Rightarrow> c_float" where
  "fdiv NaN y = NaN"
| "fdiv x NaN = NaN"
| "fdiv (Fin a) (Fin b) =
     (if b = 0 then (if a = 0 then NaN else if 0 < a then PInf else NInf) else Fin (a / b))"
| "fdiv (Fin a) y = Fin 0"
| "fdiv PInf (Fin b) = (if 0 \<le> b then PInf else NInf)"
| "fdiv NInf (Fin b) = (if 0 \<le> b then NInf else PInf)"
| "fdiv x y = NaN"

instantiation c_float :: "{plus, minus, uminus, times, inverse}"
begin

definition plus_c_float :: "c_float \<Rightarrow> c_float \<Rightarrow> c_float" where
  "plus_c_float = fadd"

definition uminus_c_float :: "c_float \<Rightarrow> c_float" where
  "uminus_c_float = fneg"

definition minus_c_float :: "c_float \<Rightarrow> c_float \<Rightarrow> c_float" where
  "minus_c_float x y = fadd x (fneg y)"

definition times_c_float :: "c_float \<Rightarrow> c_float \<Rightarrow> c_float" where
  "times_c_float = fmul"

definition divide_c_float :: "c_float \<Rightarrow> c_float \<Rightarrow> c_float" where
  "divide_c_float = fdiv"

definition inverse_c_float :: "c_float \<Rightarrow> c_float" where
  "inverse_c_float x = fdiv (Fin 1) x"

instance ..

end

text \<open>\<^verbatim>\<open>sqrt\<close>, \<^verbatim>\<open>fabs\<close> and the comparisons \<^verbatim>\<open><\<close> and \<^verbatim>\<open>!=\<close>; every ordered
  comparison with NaN is false and \<^verbatim>\<open>x != x\<close> holds exactly for NaN.\<close>

fun fsqrt :: "c_float \<Rightarrow> c_float" where
  "fsqrt (Fin a) = (if a < 0 then NaN else Fin (sqrt a))"
| "fsqrt PInf = PInf"
| "fsqrt NInf = NaN"
| "fsqrt NaN = NaN"

fun ffabs :: "c_float \<Rightarrow> c_float" where
  "ffabs (Fin a) = Fin \<bar>a\<bar>"
| "ffabs PInf = PInf"
| "ffabs NInf = PInf"
| "ffabs NaN = NaN"

fun flt :: "c_float \<Rightarrow> c_float \<Rightarrow> bool" where
  "flt NaN y = False"
| "flt x NaN = False"
| "flt (Fin a) (Fin b) = (a < b)"
| "flt x NInf = False"
| "flt PInf y = False"
| "flt NInf y = True"
| "flt (Fin a) PInf = True"

definition fne :: "c_float \<Rightarrow> c_float \<Rightarrow> bool" where
  "fne x y = (x = NaN \<or> y = NaN \<or> x \<noteq> y)"

text \<open>Conversions from the integer types.\<close>

definition float_of_uint :: "'a::len word \<Rightarrow> c_float" where
  "float_of_uint w = Fin (real (unat w))"

definition float_of_sint :: "'a::len word \<Rightarrow> c_float" where
  "float_of_sint w = Fin (real_of_int (sint w))"

definition trunc_real :: "real \<Rightarrow> int" where
  "trunc_real a = (if 0 \<le> a then \<lfloor>a\<rfloor> else \<lceil>a\<rceil>)"

text \<open>Conversion of a float to \<^verbatim>\<open>int16_t\<close> truncates towards zero.  For a value that
  is not finite, or whose integer part does not fit, the C standard leaves the result
  undefined; the model takes 0 for the first and wraps around for the second.\<close>

fun int16_of_float :: "c_float \<Rightarrow> 16 word" where
  "int16_of_float (Fin a) = word_of_int (trunc_real a)"
| "int16_of_float x = 0"

section \<open>Data model\<close>

type_synonym vec3 = "c_float \<times> c_float \<times> c_float"
type_synonym quat = "c_float \<times> c_float \<times> c_float \<times> c_float"
type_synonym mat3 = "vec3 \<times> vec3 \<times> vec3"
type_synonym int16x3 = "16 word \<times> 16 word \<times> 16 word"
type_synonym int32x3 = "32 word \<times> 32 word \<times> 32 word"

text \<open>
  The UAVObjects.  Their generated headers are not part of the sources; the fields are
  the ones \<^verbatim>\<open>attitude.c\<close> reads and writes.  Arrays of three are triples in index
  order (the code itself reads \<^verbatim>\<open>gyros[0]\<close>, \<^verbatim>\<open>gyros[1]\<close>, \<^verbatim>\<open>gyros[2]\<close>), and the two
  entries of \<^verbatim>\<open>temperature[]\<close> are named after their index constants.
\<close>

record AttitudeRawData =
  accels :: vec3
  gyros :: vec3
  magnetometers :: vec3
  temperature_GYRO :: c_float
  temperature_ACCEL :: c_float

record AttitudeActualData =
  q1 :: c_float
  q2 :: c_float
  q3 :: c_float
  q4 :: c_float
  Roll :: c_float
  Pitch :: c_float
  Yaw :: c_float

record BaroAltitudeData =
  Altitude :: c_float
  Pressure :: c_float
  Temperature :: c_float

record AttitudeSettingsData =
  AccelKp :: c_float
  AccelKi :: c_float
  YawBiasRate :: c_float
  GyroGain :: c_float
  ZeroDuringArming :: bool
  BiasCorrectGyro :: bool
  AccelBias :: int16x3
  GyroBias :: int16x3
  BoardRotation :: int16x3

datatype FlightStatusArmed = DISARMED | ARMING | ARMED

record FlightStatusData =
  Armed :: FlightStatusArmed

text \<open>The sample structures of the two FIFO drivers (fields of \<^verbatim>\<open>struct
  pios_bma180_data\<close> are \<^verbatim>\<open>x\<close>, \<^verbatim>\<open>y\<close>, \<^verbatim>\<open>z\<close>, \<^verbatim>\<open>temperature\<close>; they carry a prefix here).\<close>

record pios_bma180_data =
  accel_x :: "16 word"
  accel_y :: "16 word"
  accel_z :: "16 word"
  accel_temperature :: "8 word"

record pios_mpu6050_data =
  gyro_x :: "16 word"
  gyro_y :: "16 word"
  gyro_z :: "16 word"
  gyro_temperature :: "16 word"

datatype bmp085_conv = TemperatureConv | PressureConv

text \<open>What the task does to the rest of the system, in program order.\<close>

datatype event =
    AlarmsSet_ATTITUDE_ERROR
  | AlarmsClear_ATTITUDE
  | AttitudeRawSet AttitudeRawData
  | AttitudeActualSet AttitudeActualData
  | BaroAltitudeSet BaroAltitudeData
  | AttitudeSettingsAccelKiGet
  | AttitudeSettingsAccelKpGet
  | AttitudeSettingsYawBiasRateGet
  | PIOS_WDG_UpdateFlag
  | PIOS_BMP085_StartADC bmp085_conv

text \<open>
  The state: the file-scope variables of \<^verbatim>\<open>attitude.c\<close>, the function-local statics
  (\<open>lastSysTime\<close>, \<open>baro_conversions\<close>), the local \<open>init\<close> of \<^verbatim>\<open>AttitudeTask\<close> that
  lives across the iterations of its loop, the UAVObjects the module publishes, the
  attitude alarm, and the log of events.
\<close>

record attitude_state =
  gyro_correct_int :: vec3
  accelKi :: c_float
  accelKp :: c_float
  yawBiasRate :: c_float
  gyroGain :: c_float
  accelbias :: int16x3
  q :: quat
  R :: mat3
  rotate_flag :: "8 word"
  zero_during_arming :: bool
  bias_correct_gyro :: bool
  accel_samples :: "32 word"
  gyro_samples :: "32 word"
  accel :: pios_bma180_data
  gyro :: pios_mpu6050_data
  raw :: AttitudeRawData
  accel_accum :: int32x3
  gyro_accum :: int32x3
  scaling :: c_float
  baro_conversions :: "32 word"
  lastSysTime :: "32 word"
  init :: "8 word"
  AttitudeRawObj :: AttitudeRawData
  AttitudeActualObj :: AttitudeActualData
  BaroAltitudeObj :: BaroAltitudeData
  alarm_ATTITUDE :: bool
  events :: "event list"

text \<open>Library functions of \<^verbatim>\<open>CoordinateConversions.h\<close> and \<^verbatim>\<open>math.h\<close> whose code is
  not part of the sources; they are parameters of the model.\<close>

record libs =
  Quaternion2RPY :: "quat \<Rightarrow> vec3"
  Quaternion2R :: "quat \<Rightarrow> mat3"
  RPY2Quaternion :: "vec3 \<Rightarrow> quat"
  powf :: "c_float \<Rightarrow> c_float \<Rightarrow> c_float"

text \<open>The FreeRTOS port constants used by \<^verbatim>\<open>updateAttitude\<close>; \<^verbatim>\<open>portTickType\<close> is
  32 bits wide.\<close>

record rtos_config =
  portMAX_DELAY :: "32 word"
  portTICK_RATE_MS :: "32 word"

text \<open>Modelled from the spec: \<^verbatim>\<open>CrossProduct\<close> of \<^verbatim>\<open>CoordinateConversions\<close> is not in
  the sources; the spec calls its result "the cross product of the measured
  accelerometer vector and \<open>g_body\<close>".\<close>

definition CrossProduct :: "vec3 \<Rightarrow> vec3 \<Rightarrow> vec3" where
  "CrossProduct v1 v2 =
     (case v1 of (v1_0, v1_1, v1_2) \<Rightarrow> case v2 of (v2_0, v2_1, v2_2) \<Rightarrow>
        (v1_1 * v2_2 - v2_1 * v1_2,
         v2_0 * v1_2 - v1_0 * v2_2,
         v1_0 * v2_1 - v2_0 * v1_1))"

section \<open>The complementary filter: \<^verbatim>\<open>updateAttitude\<close>\<close>

text \<open>Line 340: the time step from the tick counter.\<close>

definition compute_dT :: "rtos_config \<Rightarrow> 32 word \<Rightarrow> 32 word \<Rightarrow> c_float" where
  "compute_dT cfg thisSysTime lastSys =
     (if thisSysTime = lastSys then Fin (1 / 1000)
      else float_of_uint ((portMAX_DELAY cfg AND (thisSysTime - lastSys)) div portTICK_RATE_MS cfg)
             / Fin 1000)"

text \<open>Lines 354 to 364: gravity rotated to the body frame, crossed with the
  accelerometer reading and divided by the accelerometer magnitude.\<close>

definition accel_error :: "vec3 \<Rightarrow> quat \<Rightarrow> vec3" where
  "accel_error accs qq =
     (case qq of (qq0, qq1, qq2, qq3) \<Rightarrow> case accs of (a0, a1, a2) \<Rightarrow>
        let grot = (- (Fin 2 * (qq1 * qq3 - qq0 * qq2)),
                    - (Fin 2 * (qq2 * qq3 + qq0 * qq1)),
                    - (qq0 * qq0 - qq1 * qq1 - qq2 * qq2 + qq3 * qq3));
            accel_mag = fsqrt (a0 * a0 + a1 * a1 + a2 * a2)
        in case CrossProduct accs grot of (e0, e1, e2) \<Rightarrow>
             (e0 / accel_mag, e1 / accel_mag, e2 / accel_mag))"

text \<open>Lines 373 to 375: the proportional correction of the rates.\<close>

definition correct_rates :: "vec3 \<Rightarrow> vec3 \<Rightarrow> c_float \<Rightarrow> c_float \<Rightarrow> vec3" where
  "correct_rates gy err kp dT =
     (case gy of (gy0, gy1, gy2) \<Rightarrow> case err of (e0, e1, e2) \<Rightarrow>
        (gy0 + e0 * kp / dT, gy1 + e1 * kp / dT, gy2 + e2 * kp / dT))"

text \<open>Lines 381 to 398: the quaternion derivative, one Euler step, and the sign flip
  that keeps \<open>q[0]\<close> non-negative.\<close>

definition integrate_q :: "quat \<Rightarrow> vec3 \<Rightarrow> c_float \<Rightarrow> quat" where
  "integrate_q qq gy dT =
     (case qq of (qq0, qq1, qq2, qq3) \<Rightarrow> case gy of (gy0, gy1, gy2) \<Rightarrow>
        let qdot0 = (- qq1 * gy0 - qq2 * gy1 - qq3 * gy2) * dT * Fin pi / Fin 180 / Fin 2;
            qdot1 = (qq0 * gy0 - qq3 * gy1 + qq2 * gy2) * dT * Fin pi / Fin 180 / Fin 2;
            qdot2 = (qq3 * gy0 + qq0 * gy1 - qq1 * gy2) * dT * Fin pi / Fin 180 / Fin 2;
            qdot3 = (- qq2 * gy0 + qq1 * gy1 + qq0 * gy2) * dT * Fin pi / Fin 180 / Fin 2;
            n0 = qq0 + qdot0;
            n1 = qq1 + qdot1;
            n2 = qq2 + qdot2;
            n3 = qq3 + qdot3
        in if flt n0 (Fin 0) then (- n0, - n1, - n2, - n3) else (n0, n1, n2, n3))"

text \<open>Line 402: the magnitude of the integrated quaternion.\<close>

definition qmag_of :: "quat \<Rightarrow> c_float" where
  "qmag_of qq =
     (case qq of (qq0, qq1, qq2, qq3) \<Rightarrow> fsqrt (qq0 * qq0 + qq1 * qq1 + qq2 * qq2 + qq3 * qq3))"

text \<open>Line 410: the test for a quaternion that is too short or NaN.\<close>

definition diverged :: "c_float \<Rightarrow> bool" where
  "diverged qmag = (flt (ffabs qmag) (Fin (1 / 1000)) \<or> fne qmag qmag)"

text \<open>Lines 401 to 415: renormalise, then reinitialise if the test fires.\<close>

definition renormalize :: "quat \<Rightarrow> quat" where
  "renormalize qq =
     (case qq of (qq0, qq1, qq2, qq3) \<Rightarrow>
        let qmag = qmag_of qq;
            qn = (qq0 / qmag, qq1 / qmag, qq2 / qmag, qq3 / qmag)
        in if diverged qmag then (Fin 1, Fin 0, Fin 0, Fin 0) else qn)"

text \<open>The quaternion after line 398 of a call, before it is renormalised.\<close>

definition integrated_q :: "rtos_config \<Rightarrow> 32 word \<Rightarrow> AttitudeRawData \<Rightarrow> attitude_state \<Rightarrow> quat" where
  "integrated_q cfg thisSysTime attitudeRaw st =
     (let dT = compute_dT cfg thisSysTime (lastSysTime st);
          accel_err = accel_error (accels attitudeRaw) (q st);
          gy = correct_rates (gyros attitudeRaw) accel_err (accelKp st) dT
      in integrate_q (q st) gy dT)"

text \<open>Lines 366 to 368: the integral of the error, on the first two axes only.\<close>

definition accumulate_int :: "vec3 \<Rightarrow> vec3 \<Rightarrow> c_float \<Rightarrow> vec3" where
  "accumulate_int gci err ki =
     (case gci of (g0, g1, g2) \<Rightarrow> case err of (e0, e1, e2) \<Rightarrow>
        (g0 + e0 * ki, g1 + e1 * ki, g2))"

text \<open>\<^verbatim>\<open>quat_copy\<close> followed by \<^verbatim>\<open>Quaternion2RPY\<close> on the fields \<open>q1\<close> .. \<open>q4\<close> and
  \<open>Roll\<close> .. \<open>Yaw\<close> of the object (lines 420 to 423).\<close>

definition attitude_of_q :: "libs \<Rightarrow> quat \<Rightarrow> AttitudeActualData \<Rightarrow> AttitudeActualData" where
  "attitude_of_q lib qq a =
     (case qq of (qq0, qq1, qq2, qq3) \<Rightarrow> case Quaternion2RPY lib qq of (r, p, y) \<Rightarrow>
        a\<lparr>q1 := qq0, q2 := qq1, q3 := qq2, q4 := qq3, Roll := r, Pitch := p, Yaw := y\<rparr>)"

text \<open>\<^verbatim>\<open>updateAttitude\<close>; \<open>thisSysTime\<close> is what \<^verbatim>\<open>xTaskGetTickCount()\<close> returns.\<close>

definition updateAttitude ::
  "libs \<Rightarrow> rtos_config \<Rightarrow> 32 word \<Rightarrow> AttitudeRawData \<Rightarrow> attitude_state \<Rightarrow> attitude_state" where
  "updateAttitude lib cfg thisSysTime attitudeRaw st =
     (let accel_err = accel_error (accels attitudeRaw) (q st);
          qnew = renormalize (integrated_q cfg thisSysTime attitudeRaw st);
          attitudeActual = attitude_of_q lib qnew (AttitudeActualObj st)
      in st\<lparr>lastSysTime := thisSysTime,
             gyro_correct_int := accumulate_int (gyro_correct_int st) accel_err (accelKi st),
             q := qnew,
             AttitudeActualObj := attitudeActual,
             events := events st @ [AttitudeActualSet attitudeActual]\<rparr>)"

section \<open>The filter in the range of \<^verbatim>\<open>float\<close>\<close>



text \<open>
  \<^verbatim>\<open>updateAttitude\<close> once more, with a function \<open>fl\<close> applied wherever the C code produces
  a \<^verbatim>\<open>float\<close>: after every operation on two \<^verbatim>\<open>float\<close> operands, after the conversion of
  the tick difference, and where a \<^verbatim>\<open>double\<close> is stored in a \<^verbatim>\<open>float\<close> variable (the
  results of \<^verbatim>\<open>sqrt\<close>, of the conditional expression of line 340, and of
  \<^verbatim>\<open>... * M_PI / 180 / 2\<close>, whose three last operations are in \<^verbatim>\<open>double\<close>).  With the
  identity for \<open>fl\<close> these are the definitions of the previous section; with
  \<open>float_range\<close> the results overflow as those of the C code do.
\<close>

definition compute_dT_fl :: "(c_float \<Rightarrow> c_float) \<Rightarrow> rtos_config \<Rightarrow> 32 word \<Rightarrow> 32 word \<Rightarrow> c_float" where
  "compute_dT_fl fl cfg thisSysTime lastSys =
     fl (if thisSysTime = lastSys then Fin (1 / 1000)
         else fl (fl (float_of_uint
                        ((portMAX_DELAY cfg AND (thisSysTime - lastSys)) div portTICK_RATE_MS cfg))
                  / Fin 1000))"

text \<open>Modelled from the spec: \<^verbatim>\<open>CrossProduct\<close>, as above, computing in \<^verbatim>\<open>float\<close>.\<close>

definition CrossProduct_fl :: "(c_float \<Rightarrow> c_float) \<Rightarrow> vec3 \<Rightarrow> vec3 \<Rightarrow> vec3" where
  "CrossProduct_fl fl v1 v2 =
     (case v1 of (v1_0, v1_1, v1_2) \<Rightarrow> case v2 of (v2_0, v2_1, v2_2) \<Rightarrow>
        (fl (fl (v1_1 * v2_2) - fl (v2_1 * v1_2)),
         fl (fl (v2_0 * v1_2) - fl (v1_0 * v2_2)),
         fl (fl (v1_0 * v2_1) - fl (v2_0 * v1_1))))"

definition accel_error_fl :: "(c_float \<Rightarrow> c_float) \<Rightarrow> vec3 \<Rightarrow> quat \<Rightarrow> vec3" where
  "accel_error_fl fl accs qq =
     (case qq of (qq0, qq1, qq2, qq3) \<Rightarrow> case accs of (a0, a1, a2) \<Rightarrow>
        let grot = (- fl (Fin 2 * fl (fl (qq1 * qq3) - fl (qq0 * qq2))),
                    - fl (Fin 2 * fl (fl (qq2 * qq3) + fl (qq0 * qq1))),
                    - fl (fl (fl (fl (qq0 * qq0) - fl (qq1 * qq1)) - fl (qq2 * qq2))
                          + fl (qq3 * qq3)));
            accel_mag = fl (fsqrt (fl (fl (fl (a0 * a0) + fl (a1 * a1)) + fl (a2 * a2))))
        in case CrossProduct_fl fl accs grot of (e0, e1, e2) \<Rightarrow>
             (fl (e0 / accel_mag), fl (e1 / accel_mag), fl (e2 / accel_mag)))"

definition correct_rates_fl ::
  "(c_float \<Rightarrow> c_float) \<Rightarrow> vec3 \<Rightarrow> vec3 \<Rightarrow> c_float \<Rightarrow> c_float \<Rightarrow> vec3" where
  "correct_rates_fl fl gy err kp dT =
     (case gy of (gy0, gy1, gy2) \<Rightarrow> case err of (e0, e1, e2) \<Rightarrow>
        (fl (gy0 + fl (fl (e0 * kp) / dT)),
         fl (gy1 + fl (fl (e1 * kp) / dT)),
         fl (gy2 + fl (fl (e2 * kp) / dT))))"

definition integrate_q_fl :: "(c_float \<Rightarrow> c_float) \<Rightarrow> quat \<Rightarrow> vec3 \<Rightarrow> c_float \<Rightarrow> quat" where
  "integrate_q_fl fl qq gy dT =
     (case qq of (qq0, qq1, qq2, qq3) \<Rightarrow> case gy of (gy0, gy1, gy2) \<Rightarrow>
        let qdot0 = fl (fl (fl (fl (fl (- qq1 * gy0) - fl (qq2 * gy1)) - fl (qq3 * gy2)) * dT)
                        * Fin pi / Fin 180 / Fin 2);
            qdot1 = fl (fl (fl (fl (fl (qq0 * gy0) - fl (qq3 * gy1)) + fl (qq2 * gy2)) * dT)
                        * Fin pi / Fin 180 / Fin 2);
            qdot2 = fl (fl (fl (fl (fl (qq3 * gy0) + fl (qq0 * gy1)) - fl (qq1 * gy2)) * dT)
                        * Fin pi / Fin 180 / Fin 2);
            qdot3 = fl (fl (fl (fl (fl (- qq2 * gy0) + fl (qq1 * gy1)) + fl (qq0 * gy2)) * dT)
                        * Fin pi / Fin 180 / Fin 2);
            n0 = fl (qq0 + qdot0);
            n1 = fl (qq1 + qdot1);
            n2 = fl (qq2 + qdot2);
            n3 = fl (qq3 + qdot3)
        in if flt n0 (Fin 0) then (- n0, - n1, - n2, - n3) else (n0, n1, n2, n3))"

definition qmag_of_fl :: "(c_float \<Rightarrow> c_float) \<Rightarrow> quat \<Rightarrow> c_float" where
  "qmag_of_fl fl qq =
     (case qq of (qq0, qq1, qq2, qq3) \<Rightarrow>
        fl (fsqrt (fl (fl (fl (fl (qq0 * qq0) + fl (qq1 * qq1)) + fl (qq2 * qq2))
                       + fl (qq3 * qq3)))))"

definition renormalize_fl :: "(c_float \<Rightarrow> c_float) \<Rightarrow> quat \<Rightarrow> quat" where
  "renormalize_fl fl qq =
     (case qq of (qq0, qq1, qq2, qq3) \<Rightarrow>
        let qmag = qmag_of_fl fl qq;
            qn = (fl (qq0 / qmag), fl (qq1 / qmag), fl (qq2 / qmag), fl (qq3 / qmag))
        in if diverged qmag then (Fin 1, Fin 0, Fin 0, Fin 0) else qn)"

definition integrated_q_fl ::
  "(c_float \<Rightarrow> c_float) \<Rightarrow> rtos_config \<Rightarrow> 32 word \<Rightarrow> AttitudeRawData \<Rightarrow> attitude_state \<Rightarrow> quat" where
  "integrated_q_fl fl cfg thisSysTime attitudeRaw st =
     (let dT = compute_dT_fl fl cfg thisSysTime (lastSysTime st);
          accel_err = accel_error_fl fl (accels attitudeRaw) (q st);
          gy = correct_rates_fl fl (gyros attitudeRaw) accel_err (accelKp st) dT
      in integrate_q_fl fl (q st) gy dT)"

definition accumulate_int_fl :: "(c_float \<Rightarrow> c_float) \<Rightarrow> vec3 \<Rightarrow> vec3 \<Rightarrow> c_float \<Rightarrow> vec3" where
  "accumulate_int_fl fl gci err ki =
     (case gci of (g0, g1, g2) \<Rightarrow> case err of (e0, e1, e2) \<Rightarrow>
        (fl (g0 + fl (e0 * ki)), fl (g1 + fl (e1 * ki)), g2))"

definition updateAttitude_fl ::
  "(c_float \<Rightarrow> c_float) \<Rightarrow> libs \<Rightarrow> rtos_config \<Rightarrow> 32 word \<Rightarrow> AttitudeRawData \<Rightarrow> attitude_state
     \<Rightarrow> attitude_state" where
  "updateAttitude_fl fl lib cfg thisSysTime attitudeRaw st =
     (let accel_err = accel_error_fl fl (accels attitudeRaw) (q st);
          qnew = renormalize_fl fl (integrated_q_fl fl cfg thisSysTime attitudeRaw st);
          attitudeActual = attitude_of_q lib qnew (AttitudeActualObj st)
      in st\<lparr>lastSysTime := thisSysTime,
             gyro_correct_int := accumulate_int_fl fl (gyro_correct_int st) accel_err (accelKi st),
             q := qnew,
             AttitudeActualObj := attitudeActual,
             events := events st @ [AttitudeActualSet attitudeActual]\<rparr>)"

section \<open>The sensor drivers, as seen by one call of \<^verbatim>\<open>updateSensors\<close>\<close>

text \<open>
  The drivers are outside the sources.  One call of \<^verbatim>\<open>updateSensors\<close> sees them through
  the values their functions return: \<open>PIOS_BMA180_ReadFifo env n\<close> is the outcome of the
  \<open>n\<close>-th call of \<^verbatim>\<open>PIOS_BMA180_ReadFifo\<close> during this invocation, \<open>Some s\<close> when it
  returns 0 and stores the sample \<open>s\<close>, \<open>None\<close> when it returns non-zero (and leaves the
  sample buffer alone).  \<open>PIOS_HMC5883_ReadMag\<close> is \<open>None\<close> when
  \<^verbatim>\<open>PIOS_HMC5883_NewDataAvailable()\<close> is false.  The two BMP085 readings are taken after
  their conversion to \<^verbatim>\<open>float\<close>.
\<close>

record sensor_env =
  PIOS_BMA180_ReadFifo :: "nat \<Rightarrow> pios_bma180_data option"
  PIOS_BMA180_GetScale :: c_float
  PIOS_MPU6050_ReadFifo :: "nat \<Rightarrow> pios_mpu6050_data option"
  PIOS_MPU6050_GetScale :: c_float
  PIOS_HMC5883_ReadMag :: "int16x3 option"
  PIOS_BMP085_ReadADC :: "32 word"
  PIOS_BMP085_GetPressure :: c_float
  PIOS_BMP085_GetTemperature :: c_float

text \<open>Modelled from the spec: the macro \<^verbatim>\<open>BMP085_P0\<close> is not in the sources; the spec
  gives the sea-level reference pressure as 101325 Pa.\<close>

definition BMP085_P0 :: c_float where
  "BMP085_P0 = Fin 101325"

text \<open>Lines 241 and 263: \<^verbatim>\<open>while((read_good = ReadFifo(&s)) != 0);\<close> polls until a read
  succeeds.  The result is the sample and the number of reads made so far; the loop has
  no bound, so the function is partial and \<open>None\<close> stands for a loop that never ends.\<close>

partial_function (option) wait_sample :: "(nat \<Rightarrow> 'a option) \<Rightarrow> nat \<Rightarrow> ('a \<times> nat) option" where
  "wait_sample ReadFifo n =
     (case ReadFifo n of
        None \<Rightarrow> wait_sample ReadFifo (Suc n)
      | Some s \<Rightarrow> Some (s, Suc n))"

text \<open>Lines 242 to 250 and 264 to 272: \<^verbatim>\<open>while(read_good == 0)\<close> counts the sample just
  read, adds it to the accumulators and reads again, until a read fails.  \<open>count\<close> is an
  \<^verbatim>\<open>int32_t\<close>, the accumulators are three \<^verbatim>\<open>int32_t\<close>; they wrap around here.\<close>

partial_function (option) drain_fifo ::
  "(int32x3 \<Rightarrow> 'a \<Rightarrow> int32x3) \<Rightarrow> (nat \<Rightarrow> 'a option) \<Rightarrow> nat \<Rightarrow> 32 word \<Rightarrow> int32x3 \<Rightarrow> 'a
     \<Rightarrow> (32 word \<times> int32x3 \<times> 'a) option" where
  "drain_fifo accumulate ReadFifo n count accum s =
     (case ReadFifo n of
        None \<Rightarrow> Some (count + 1, accumulate accum s, s)
      | Some s' \<Rightarrow> drain_fifo accumulate ReadFifo (Suc n) (count + 1) (accumulate accum s) s')"

definition accumulate_accel :: "int32x3 \<Rightarrow> pios_bma180_data \<Rightarrow> int32x3" where
  "accumulate_accel accum s =
     (case accum of (a0, a1, a2) \<Rightarrow>
        (a0 + scast (accel_x s), a1 + scast (accel_y s), a2 + scast (accel_z s)))"

definition accumulate_gyro :: "int32x3 \<Rightarrow> pios_mpu6050_data \<Rightarrow> int32x3" where
  "accumulate_gyro accum s =
     (case accum of (a0, a1, a2) \<Rightarrow>
        (a0 + scast (gyro_x s), a1 + scast (gyro_y s), a2 + scast (gyro_z s)))"

section \<open>\<^verbatim>\<open>updateSensors\<close>\<close>

text \<open>Lines 239 to 257: the accelerometer.\<close>

definition read_accels ::
  "sensor_env \<Rightarrow> AttitudeRawData \<Rightarrow> attitude_state \<Rightarrow> (AttitudeRawData \<times> attitude_state) option" where
  "read_accels env attitudeRaw st =
     (case wait_sample (PIOS_BMA180_ReadFifo env) 0 of
        None \<Rightarrow> None
      | Some (s, n) \<Rightarrow>
         (case drain_fifo accumulate_accel (PIOS_BMA180_ReadFifo env) n 0 (accel_accum st) s of
            None \<Rightarrow> None
          | Some (count, accum, last_s) \<Rightarrow>
              let sc = PIOS_BMA180_GetScale env / float_of_uint count
              in case accum of (a0, a1, a2) \<Rightarrow>
                   Some (attitudeRaw\<lparr>accels :=
                           (float_of_sint a0 * sc, float_of_sint a1 * sc, float_of_sint a2 * sc)\<rparr>,
                         st\<lparr>accel := last_s, accel_accum := accum, accel_samples := count,
                            scaling := sc\<rparr>)))"

text \<open>Lines 261 to 278: the gyroscope, with its channels swapped and negated.\<close>

definition read_gyros ::
  "sensor_env \<Rightarrow> AttitudeRawData \<Rightarrow> attitude_state \<Rightarrow> (AttitudeRawData \<times> attitude_state) option" where
  "read_gyros env attitudeRaw st =
     (case wait_sample (PIOS_MPU6050_ReadFifo env) 0 of
        None \<Rightarrow> None
      | Some (s, n) \<Rightarrow>
         (case drain_fifo accumulate_gyro (PIOS_MPU6050_ReadFifo env) n 0 (gyro_accum st) s of
            None \<Rightarrow> None
          | Some (count, accum, last_s) \<Rightarrow>
              let sc = PIOS_MPU6050_GetScale env / float_of_uint count
              in case accum of (a0, a1, a2) \<Rightarrow>
                   Some (attitudeRaw\<lparr>gyros :=
                           (- float_of_sint a1 * sc, - float_of_sint a0 * sc, - float_of_sint a2 * sc)\<rparr>,
                         st\<lparr>gyro := last_s, gyro_accum := accum, gyro_samples := count,
                            scaling := sc\<rparr>)))"

text \<open>Lines 280 to 284: the two die temperatures.  Line 281 assigns the converted value
  to the integer field \<^verbatim>\<open>gyro.temperature\<close> first, and the object receives the value of
  that assignment.\<close>

definition read_temperatures :: "AttitudeRawData \<Rightarrow> attitude_state \<Rightarrow> AttitudeRawData \<times> attitude_state" where
  "read_temperatures attitudeRaw st =
     (let t = int16_of_float
                (Fin 35 + (float_of_sint (gyro_temperature (gyro st)) + Fin 13200) / Fin 280)
      in (attitudeRaw\<lparr>temperature_GYRO := float_of_sint t,
                       temperature_ACCEL :=
                         Fin 25 + (float_of_sint (accel_temperature (accel st)) - Fin 2) / Fin 2\<rparr>,
          st\<lparr>gyro := (gyro st)\<lparr>gyro_temperature := t\<rparr>\<rparr>))"

text \<open>Lines 286 to 295: the bias integral is added to the published rates when
  \<open>bias_correct_gyro\<close> is set, and the yaw component of the integral is then moved
  against the z rate of the object.\<close>

definition correct_bias :: "AttitudeRawData \<Rightarrow> attitude_state \<Rightarrow> AttitudeRawData \<times> attitude_state" where
  "correct_bias attitudeRaw st =
     (case gyros attitudeRaw of (gx, gy, gz) \<Rightarrow> case gyro_correct_int st of (c0, c1, c2) \<Rightarrow>
        let attitudeRaw' = (if bias_correct_gyro st
                            then attitudeRaw\<lparr>gyros := (gx + c0, gy + c1, gz + c2)\<rparr>
                            else attitudeRaw)
        in case gyros attitudeRaw' of (gx', gy', gz') \<Rightarrow>
             (attitudeRaw', st\<lparr>gyro_correct_int := (c0, c1, c2 + - gz' * yawBiasRate st)\<rparr>))"

text \<open>Lines 298 to 304: the magnetometer, when it has new data.  The \<^verbatim>\<open>int16_t\<close> values are
  promoted to \<^verbatim>\<open>int\<close>, negated, and stored in the float fields of the object.\<close>

definition read_mag :: "sensor_env \<Rightarrow> AttitudeRawData \<Rightarrow> AttitudeRawData" where
  "read_mag env attitudeRaw =
     (case PIOS_HMC5883_ReadMag env of
        None \<Rightarrow> attitudeRaw
      | Some (v0, v1, v2) \<Rightarrow>
          attitudeRaw\<lparr>magnetometers :=
            (Fin (real_of_int (- sint v0)), Fin (real_of_int (- sint v1)), Fin (real_of_int (- sint v2)))\<rparr>)"

text \<open>Lines 308 to 329: the barometer, one conversion per completed ADC read.\<close>

definition update_baro :: "libs \<Rightarrow> sensor_env \<Rightarrow> attitude_state \<Rightarrow> attitude_state" where
  "update_baro lib env st =
     (if PIOS_BMP085_ReadADC env = 0 then
        let n = baro_conversions st;
            st1 = st\<lparr>baro_conversions := n + 1\<rparr>
        in if n mod 2 \<noteq> 0
           then st1\<lparr>events := events st1 @ [PIOS_BMP085_StartADC PressureConv]\<rparr>
           else
             let pressure = PIOS_BMP085_GetPressure env;
                 data = (BaroAltitudeObj st1)
                   \<lparr>Altitude := (Fin 1 - powf lib (pressure / BMP085_P0) (Fin 1 / Fin (5255 / 1000)))
                                  * Fin 44330,
                    Pressure := pressure / Fin 1000,
                    Temperature := PIOS_BMP085_GetTemperature env / Fin 10\<rparr>
             in st1\<lparr>BaroAltitudeObj := data,
                    events := events st1 @ [PIOS_BMP085_StartADC TemperatureConv, BaroAltitudeSet data]\<rparr>
      else st)"

text \<open>\<^verbatim>\<open>updateSensors\<close>: \<open>attitudeRaw\<close> is the caller's record; the result is the return
  value, the record as the call leaves it, and the state.  Line 306 publishes the
  file-scope variable \<open>raw\<close>, not \<open>attitudeRaw\<close>.\<close>

definition updateSensors ::
  "libs \<Rightarrow> sensor_env \<Rightarrow> AttitudeRawData \<Rightarrow> attitude_state
     \<Rightarrow> (8 word \<times> AttitudeRawData \<times> attitude_state) option" where
  "updateSensors lib env attitudeRaw st =
     (let st0 = st\<lparr>accel_accum := (0, 0, 0), gyro_accum := (0, 0, 0),
                   accel_samples := 0, gyro_samples := 0\<rparr>
      in case read_accels env attitudeRaw st0 of
           None \<Rightarrow> None
         | Some (attitudeRaw1, st1) \<Rightarrow>
            (case read_gyros env attitudeRaw1 st1 of
               None \<Rightarrow> None
             | Some (attitudeRaw2, st2) \<Rightarrow>
                (case read_temperatures attitudeRaw2 st2 of (attitudeRaw3, st3) \<Rightarrow>
                 case correct_bias attitudeRaw3 st3 of (attitudeRaw4, st4) \<Rightarrow>
                   let attitudeRaw5 = read_mag env attitudeRaw4;
                       st5 = st4\<lparr>AttitudeRawObj := raw st4,
                                 events := events st4 @ [AttitudeRawSet (raw st4)]\<rparr>
                   in Some (0, attitudeRaw5, update_baro lib env st5))))"

section \<open>Settings, initialisation and the task\<close>

text \<open>\<^verbatim>\<open>settingsUpdatedCb\<close>, on the settings object that \<^verbatim>\<open>AttitudeSettingsGet\<close> reads.\<close>

definition settingsUpdatedCb :: "libs \<Rightarrow> AttitudeSettingsData \<Rightarrow> attitude_state \<Rightarrow> attitude_state" where
  "settingsUpdatedCb lib attitudeSettings st =
     (let st1 = st\<lparr>accelKp := AccelKp attitudeSettings,
                   accelKi := AccelKi attitudeSettings,
                   yawBiasRate := YawBiasRate attitudeSettings,
                   gyroGain := GyroGain attitudeSettings,
                   zero_during_arming := ZeroDuringArming attitudeSettings,
                   bias_correct_gyro := BiasCorrectGyro attitudeSettings,
                   accelbias := AccelBias attitudeSettings,
                   gyro_correct_int :=
                     (case GyroBias attitudeSettings of (b0, b1, b2) \<Rightarrow>
                        (float_of_sint b0 / Fin 100, float_of_sint b1 / Fin 100,
                         float_of_sint b2 / Fin 100))\<rparr>
      in case BoardRotation attitudeSettings of (r0, r1, r2) \<Rightarrow>
           if r0 = 0 \<and> r1 = 0 \<and> r2 = 0
           then st1\<lparr>rotate_flag := 0, R := Quaternion2R lib (Fin 1, Fin 0, Fin 0, Fin 0)\<rparr>
           else st1\<lparr>R := Quaternion2R lib
                            (RPY2Quaternion lib (float_of_sint r0, float_of_sint r1, float_of_sint r2)),
                    rotate_flag := 1\<rparr>)"

text \<open>The record that C gives a zero-initialised \<^verbatim>\<open>AttitudeRawData\<close>.\<close>

definition AttitudeRaw_zero :: AttitudeRawData where
  "AttitudeRaw_zero =
     \<lparr>accels = (Fin 0, Fin 0, Fin 0), gyros = (Fin 0, Fin 0, Fin 0),
      magnetometers = (Fin 0, Fin 0, Fin 0), temperature_GYRO = Fin 0, temperature_ACCEL = Fin 0\<rparr>"

text \<open>The state when the program starts: every file-scope variable and static has its
  initialiser, or zero when it has none (\<open>init\<close>, a local of \<^verbatim>\<open>AttitudeTask\<close>, gets its
  value when the task starts).  The three objects are the ones their
  \<^verbatim>\<open>...Initialize()\<close> functions create.\<close>

definition boot_state ::
  "AttitudeRawData \<Rightarrow> AttitudeActualData \<Rightarrow> BaroAltitudeData \<Rightarrow> attitude_state" where
  "boot_state rawObj actualObj baroObj =
     \<lparr>gyro_correct_int = (Fin 0, Fin 0, Fin 0),
      accelKi = Fin 0, accelKp = Fin 0, yawBiasRate = Fin 0, gyroGain = Fin (42 / 100),
      accelbias = (0, 0, 0),
      q = (Fin 1, Fin 0, Fin 0, Fin 0),
      R = ((Fin 0, Fin 0, Fin 0), (Fin 0, Fin 0, Fin 0), (Fin 0, Fin 0, Fin 0)),
      rotate_flag = 0, zero_during_arming = False, bias_correct_gyro = True,
      accel_samples = 0, gyro_samples = 0,
      accel = \<lparr>accel_x = 0, accel_y = 0, accel_z = 0, accel_temperature = 0\<rparr>,
      gyro = \<lparr>gyro_x = 0, gyro_y = 0, gyro_z = 0, gyro_temperature = 0\<rparr>,
      raw = AttitudeRaw_zero,
      accel_accum = (0, 0, 0), gyro_accum = (0, 0, 0),
      scaling = Fin 0, baro_conversions = 0, lastSysTime = 0, init = 0,
      AttitudeRawObj = rawObj, AttitudeActualObj = actualObj, BaroAltitudeObj = baroObj,
      alarm_ATTITUDE = False, events = []\<rparr>"

text \<open>\<^verbatim>\<open>AttitudeInitialize\<close> (lines 109 to 141).\<close>

definition AttitudeInitialize :: "attitude_state \<Rightarrow> attitude_state" where
  "AttitudeInitialize st =
     (let attitude = (AttitudeActualObj st)\<lparr>q1 := Fin 1, q2 := Fin 0, q3 := Fin 0, q4 := Fin 0\<rparr>
      in st\<lparr>AttitudeActualObj := attitude,
             events := events st @ [AttitudeActualSet attitude],
             gyro_correct_int := (Fin 0, Fin 0, Fin 0),
             q := (Fin 1, Fin 0, Fin 0, Fin 0),
             R := ((Fin 0, Fin 0, Fin 0), (Fin 0, Fin 0, Fin 0), (Fin 0, Fin 0, Fin 0))\<rparr>)"

text \<open>What one iteration of the loop of \<^verbatim>\<open>AttitudeTask\<close> reads from outside the module:
  the flight status, the tick counter (read twice on line 175; the second read happens
  only when the first is below 7000), the settings object, and the sensors.\<close>

record cycle_env =
  FlightStatusGet :: FlightStatusData
  xTaskGetTickCount_first :: "32 word"
  xTaskGetTickCount_second :: "32 word"
  AttitudeSettingsGet :: AttitudeSettingsData
  sensors :: sensor_env

text \<open>Lines 172 to 193: the choice of the gains.\<close>

definition schedule_gains :: "cycle_env \<Rightarrow> attitude_state \<Rightarrow> attitude_state" where
  "schedule_gains ce st =
     (if xTaskGetTickCount_first ce < 7000 \<and> xTaskGetTickCount_second ce > 1000 then
        st\<lparr>accelKp := Fin 1, accelKi := Fin (9 / 10), yawBiasRate := Fin (23 / 100), init := 0\<rparr>
      else if zero_during_arming st \<and> Armed (FlightStatusGet ce) = ARMING then
        st\<lparr>accelKp := Fin 1, accelKi := Fin (9 / 10), yawBiasRate := Fin (23 / 100), init := 0\<rparr>
      else if init st = 0 then
        st\<lparr>accelKi := AccelKi (AttitudeSettingsGet ce),
           accelKp := AccelKp (AttitudeSettingsGet ce),
           yawBiasRate := YawBiasRate (AttitudeSettingsGet ce),
           init := 1,
           events := events st @ [AttitudeSettingsAccelKiGet, AttitudeSettingsAccelKpGet,
                                  AttitudeSettingsYawBiasRateGet]\<rparr>
      else st)"

text \<open>Lines 170 to 209: one iteration of the loop.  The call of \<^verbatim>\<open>updateAttitude\<close> on
  line 203 is commented out in the source, so it is not part of the iteration.  The result
  is \<open>None\<close> when \<^verbatim>\<open>updateSensors\<close> does not return.  The delay of one tick that ends the
  iteration has no effect on the state.\<close>

definition AttitudeTask_cycle :: "libs \<Rightarrow> cycle_env \<Rightarrow> attitude_state \<Rightarrow> attitude_state option" where
  "AttitudeTask_cycle lib ce st =
     (let st1 = schedule_gains ce st;
          st2 = st1\<lparr>events := events st1 @ [PIOS_WDG_UpdateFlag]\<rparr>;
          attitudeRaw = AttitudeRawObj st2
      in case updateSensors lib (sensors ce) attitudeRaw st2 of
           None \<Rightarrow> None
         | Some (ret, attitudeRaw', st3) \<Rightarrow>
             if ret \<noteq> 0
             then Some (st3\<lparr>alarm_ATTITUDE := True,
                           events := events st3 @ [AlarmsSet_ATTITUDE_ERROR]\<rparr>)
             else Some (st3\<lparr>AttitudeRawObj := attitudeRaw',
                           alarm_ATTITUDE := False,
                           events := events st3 @ [AttitudeRawSet attitudeRaw', AlarmsClear_ATTITUDE]\<rparr>))"

text \<open>Lines 155 to 167: what \<^verbatim>\<open>AttitudeTask\<close> does before its loop (the four driver
  self-tests only fill four result variables that nothing reads, and are left out).\<close>

definition AttitudeTask_start :: "libs \<Rightarrow> AttitudeSettingsData \<Rightarrow> attitude_state \<Rightarrow> attitude_state" where
  "AttitudeTask_start lib attitudeSettings st =
     (let st1 = st\<lparr>init := 0, alarm_ATTITUDE := False,
                   events := events st @ [AlarmsClear_ATTITUDE]\<rparr>;
          st2 = settingsUpdatedCb lib attitudeSettings st1
      in st2\<lparr>events := events st2 @ [PIOS_BMP085_StartADC TemperatureConv]\<rparr>)"

text \<open>A run of the task: iterations of the loop, with settings updates (the callback
  registered on line 138) arriving between iterations.\<close>

datatype step = Cycle cycle_env | SettingsUpdated AttitudeSettingsData

fun run :: "libs \<Rightarrow> step list \<Rightarrow> attitude_state \<Rightarrow> attitude_state option" where
  "run lib [] st = Some st"
| "run lib (Cycle ce # steps) st =
     (case AttitudeTask_cycle lib ce st of None \<Rightarrow> None | Some st' \<Rightarrow> run lib steps st')"
| "run lib (SettingsUpdated s # steps) st = run lib steps (settingsUpdatedCb lib s st)"

definition AttitudeTask ::
  "libs \<Rightarrow> AttitudeSettingsData \<Rightarrow> step list \<Rightarrow> attitude_state \<Rightarrow> attitude_state option" where
  "AttitudeTask lib attitudeSettings steps st = run lib steps (AttitudeTask_start lib attitudeSettings st)"


section \<open>Notions used to state the properties\<close>








text \<open>A finite value of magnitude at most \<open>B\<close>; a value that is such a one or NaN; and a
  sample whose six readings are finite and of magnitude at most \<open>10\<^sup>6\<close>.\<close>

fun mag_le :: "real \<Rightarrow> c_float \<Rightarrow> bool" where
  "mag_le B (Fin a) = (\<bar>a\<bar> \<le> B)"
| "mag_le B x = False"

definition bnd :: "real \<Rightarrow> c_float \<Rightarrow> bool" where
  "bnd B x = (x = NaN \<or> mag_le B x)"



text \<open>A FIFO that is empty for the first \<open>k\<close> reads, then delivers the samples \<open>xs\<close> one
  per read, then is empty again.\<close>

definition fifo_delivers :: "(nat \<Rightarrow> 'a option) \<Rightarrow> nat \<Rightarrow> 'a list \<Rightarrow> bool" where
  "fifo_delivers ReadFifo k xs =
     ((\<forall>i<k. ReadFifo i = None) \<and> (\<forall>i<length xs. ReadFifo (k + i) = Some (xs ! i))
      \<and> ReadFifo (k + length xs) = None)"

definition fifo_script :: "nat \<Rightarrow> 'a list \<Rightarrow> nat \<Rightarrow> 'a option" where
  "fifo_script k xs i = (if k \<le> i \<and> i - k < length xs then Some (xs ! (i - k)) else None)"

text \<open>The events a step appended to the log.\<close>

definition new_events :: "attitude_state \<Rightarrow> attitude_state \<Rightarrow> event list" where
  "new_events st st' = drop (length (events st)) (events st')"

fun is_AttitudeRawSet :: "event \<Rightarrow> bool" where
  "is_AttitudeRawSet (AttitudeRawSet a) = True"
| "is_AttitudeRawSet e = False"

fun is_AttitudeActualSet :: "event \<Rightarrow> bool" where
  "is_AttitudeActualSet (AttitudeActualSet a) = True"
| "is_AttitudeActualSet e = False"

fun is_settings_read :: "event \<Rightarrow> bool" where
  "is_settings_read AttitudeSettingsAccelKiGet = True"
| "is_settings_read AttitudeSettingsAccelKpGet = True"
| "is_settings_read AttitudeSettingsYawBiasRateGet = True"
| "is_settings_read e = False"

text \<open>Concrete inputs for the examples: library functions that return zeros, a tick of
  one millisecond, a settings object, and sensors that deliver given samples at once.\<close>

definition example_libs :: libs where
  "example_libs =
     \<lparr>Quaternion2RPY = (\<lambda>v. (Fin 0, Fin 0, Fin 0)),
      Quaternion2R = (\<lambda>v. ((Fin 0, Fin 0, Fin 0), (Fin 0, Fin 0, Fin 0), (Fin 0, Fin 0, Fin 0))),
      RPY2Quaternion = (\<lambda>v. (Fin 1, Fin 0, Fin 0, Fin 0)),
      powf = (\<lambda>x y. Fin 1)\<rparr>"

definition example_rtos :: rtos_config where
  "example_rtos = \<lparr>portMAX_DELAY = - 1, portTICK_RATE_MS = 1\<rparr>"

definition example_actual :: AttitudeActualData where
  "example_actual =
     \<lparr>q1 = Fin 1, q2 = Fin 0, q3 = Fin 0, q4 = Fin 0, Roll = Fin 0, Pitch = Fin 0, Yaw = Fin 0\<rparr>"

definition example_baro :: BaroAltitudeData where
  "example_baro = \<lparr>Altitude = Fin 0, Pressure = Fin 0, Temperature = Fin 0\<rparr>"

definition example_state :: attitude_state where
  "example_state = AttitudeInitialize (boot_state AttitudeRaw_zero example_actual example_baro)"

definition example_settings :: AttitudeSettingsData where
  "example_settings =
     \<lparr>AccelKp = Fin (1 / 20), AccelKi = Fin (1 / 10000), YawBiasRate = Fin (1 / 1000000),
      GyroGain = Fin (42 / 100), ZeroDuringArming = True, BiasCorrectGyro = True,
      AccelBias = (0, 0, 0), GyroBias = (0, 0, 0), BoardRotation = (0, 0, 0)\<rparr>"

definition accel_sample :: "16 word \<Rightarrow> 16 word \<Rightarrow> 16 word \<Rightarrow> pios_bma180_data" where
  "accel_sample a b c = \<lparr>accel_x = a, accel_y = b, accel_z = c, accel_temperature = 2\<rparr>"

definition gyro_sample :: "16 word \<Rightarrow> 16 word \<Rightarrow> 16 word \<Rightarrow> pios_mpu6050_data" where
  "gyro_sample a b c = \<lparr>gyro_x = a, gyro_y = b, gyro_z = c, gyro_temperature = - 13200\<rparr>"

definition example_sensors :: "pios_bma180_data list \<Rightarrow> pios_mpu6050_data list \<Rightarrow> sensor_env" where
  "example_sensors as gs =
     \<lparr>PIOS_BMA180_ReadFifo = fifo_script 0 as, PIOS_BMA180_GetScale = Fin 2,
      PIOS_MPU6050_ReadFifo = fifo_script 0 gs, PIOS_MPU6050_GetScale = Fin 1,
      PIOS_HMC5883_ReadMag = None, PIOS_BMP085_ReadADC = 1,
      PIOS_BMP085_GetPressure = Fin 101325, PIOS_BMP085_GetTemperature = Fin 200\<rparr>"

definition example_cycle :: "32 word \<Rightarrow> cycle_env" where
  "example_cycle t =
     \<lparr>FlightStatusGet = \<lparr>Armed = DISARMED\<rparr>,
      xTaskGetTickCount_first = t, xTaskGetTickCount_second = t,
      AttitudeSettingsGet = example_settings,
      sensors = example_sensors [accel_sample 1 2 (- 3), accel_sample 3 2 (- 5)]
                                [gyro_sample 0 0 0]\<rparr>"





text \<open>The three regimes of the gain scheduler, the gains in force, and the gains of a
  settings object.\<close>

definition startup_window :: "cycle_env \<Rightarrow> bool" where
  "startup_window ce = (xTaskGetTickCount_first ce < 7000 \<and> xTaskGetTickCount_second ce > 1000)"

definition arming_zero :: "cycle_env \<Rightarrow> attitude_state \<Rightarrow> bool" where
  "arming_zero ce st = (zero_during_arming st \<and> Armed (FlightStatusGet ce) = ARMING)"

definition steady :: "cycle_env \<Rightarrow> attitude_state \<Rightarrow> bool" where
  "steady ce st = (\<not> startup_window ce \<and> \<not> arming_zero ce st)"

definition gains :: "attitude_state \<Rightarrow> c_float \<times> c_float \<times> c_float" where
  "gains st = (accelKp st, accelKi st, yawBiasRate st)"

definition settings_gains :: "AttitudeSettingsData \<Rightarrow> c_float \<times> c_float \<times> c_float" where
  "settings_gains s = (AccelKp s, AccelKi s, YawBiasRate s)"

definition all_steady :: "cycle_env list \<Rightarrow> attitude_state \<Rightarrow> bool" where
  "all_steady ces st = list_all (\<lambda>ce. steady ce st) ces"

text \<open>The exact sum of one axis over a list of samples, and the reading \<open>(S / N) * scale\<close>.\<close>

definition axis_sum :: "('a \<Rightarrow> 16 word) \<Rightarrow> 'a list \<Rightarrow> int" where
  "axis_sum f xs = sum_list (map (\<lambda>s. sint (f s)) xs)"

definition mean_reading :: "int \<Rightarrow> nat \<Rightarrow> c_float \<Rightarrow> c_float" where
  "mean_reading S N scale = Fin (real_of_int S) / Fin (real N) * scale"

definition third :: "'a \<times> 'b \<times> 'c \<Rightarrow> 'c" where
  "third v = snd (snd v)"

text \<open>The z rate that line 278 stores when the gyroscope drain delivered the samples
  \<open>ys\<close>: their average, scaled and negated, before any bias is added.\<close>

definition raw_gyro_z :: "sensor_env \<Rightarrow> pios_mpu6050_data list \<Rightarrow> c_float" where
  "raw_gyro_z env ys =
     - float_of_sint (sum_list (map (\<lambda>s. scast (gyro_z s) :: 32 word) ys))
       * (PIOS_MPU6050_GetScale env / float_of_uint (of_nat (length ys) :: 32 word))"

text \<open>The z rate of the published object: the raw rate, plus the yaw component of the
  bias integral when \<open>bias_correct_gyro\<close> is set.\<close>

definition published_gyro_z :: "sensor_env \<Rightarrow> pios_mpu6050_data list \<Rightarrow> attitude_state \<Rightarrow> c_float" where
  "published_gyro_z env ys st =
     (if bias_correct_gyro st then raw_gyro_z env ys + third (gyro_correct_int st)
      else raw_gyro_z env ys)"

text \<open>The yaw component of the bias integral after a call of \<^verbatim>\<open>updateSensors\<close>, when
  the call returns.\<close>

definition yaw_bias_after :: "(8 word \<times> AttitudeRawData \<times> attitude_state) option \<Rightarrow> c_float option" where
  "yaw_bias_after r =
     (case r of None \<Rightarrow> None | Some (ret, attitudeRaw', st') \<Rightarrow> Some (third (gyro_correct_int st')))"

text \<open>The yaw bias after the update in the form \<open>bias_z += - gyro_z_raw * yaw_bias_rate\<close>,
  with the raw, un-corrected z rate.\<close>

definition claimed_yaw_bias :: "sensor_env \<Rightarrow> pios_mpu6050_data list \<Rightarrow> attitude_state \<Rightarrow> c_float" where
  "claimed_yaw_bias env ys st =
     third (gyro_correct_int st) + - raw_gyro_z env ys * yawBiasRate st"

section \<open>Arithmetic of the float values\<close>

lemma Fin_plus [simp]: "Fin a + Fin b = Fin (a + b)"
  by (simp add: plus_c_float_def)

lemma Fin_minus [simp]: "Fin a - Fin b = Fin (a - b)"
  by (simp add: minus_c_float_def)

lemma Fin_uminus [simp]: "- Fin a = Fin (- a)"
  by (simp add: uminus_c_float_def)

lemma Fin_times [simp]: "Fin a * Fin b = Fin (a * b)"
  by (simp add: times_c_float_def)

lemma Fin_divide [simp]:
  "Fin a / Fin b =
     (if b = 0 then (if a = 0 then NaN else if 0 < a then PInf else NInf) else Fin (a / b))"
  by (simp add: divide_c_float_def)

lemma NaN_plus [simp]: "NaN + x = NaN" "x + NaN = NaN"
  by (cases x; simp add: plus_c_float_def)+

lemma NaN_minus [simp]: "NaN - x = NaN" "x - NaN = NaN"
  by (cases x; simp add: minus_c_float_def)+

lemma NaN_uminus [simp]: "- NaN = NaN"
  by (simp add: uminus_c_float_def)

lemma NaN_times [simp]: "NaN * x = NaN" "x * NaN = NaN"
  by (cases x; simp add: times_c_float_def)+

lemma NaN_divide [simp]: "NaN / x = NaN" "x / NaN = NaN"
  by (cases x; simp add: divide_c_float_def)+

lemma flt_NaN [simp]: "flt x NaN = False"
  by (cases x) simp_all

lemma fne_self [simp]: "fne x x = (x = NaN)"
  by (simp add: fne_def)

lemma diverged_NaN [simp]: "diverged NaN"
  by (simp add: diverged_def)



lemma third_conv [simp]: "third (a, b, c) = c"
  by (simp add: third_def)

section \<open>The time step\<close>

lemma real_unat_pos: "w \<noteq> 0 \<Longrightarrow> 0 < real (unat (w::32 word))"
  using unat_gt_0 [of w] of_nat_0_less_iff [where ?'a = real, of "unat w"] by blast

lemma compute_dT_value:
  assumes "portMAX_DELAY cfg = - 1" and "portTICK_RATE_MS cfg = 1"
  shows "compute_dT cfg t l = Fin (if t = l then 1 / 1000 else real (unat (t - l)) / 1000)"
  using assms by (simp add: compute_dT_def float_of_uint_def)

text \<open>
  C7.  With a tick of one millisecond and the all-ones \<^verbatim>\<open>portMAX_DELAY\<close> of the 32-bit
  port, the time step of \<^verbatim>\<open>updateAttitude\<close> is 0.001 s when the tick count has not moved
  since the previous call, and it is a finite, strictly positive number in every case;
  so the division by \<open>dT\<close> in the proportional correction never divides by zero.
\<close>

theorem dT_positive:
  assumes "portMAX_DELAY cfg = - 1" and "portTICK_RATE_MS cfg = 1"
  shows "compute_dT cfg t t = Fin (1 / 1000) \<and> (\<exists>d. compute_dT cfg t l = Fin d \<and> 0 < d)"
proof -
  have "0 < (if t = l then 1 / 1000 else real (unat (t - l)) / 1000)"
    using real_unat_pos [of "t - l"] by simp
  with compute_dT_value [OF assms] show ?thesis
    by (simp add: compute_dT_def)
qed

theorem dT_positive_witness:
  "portMAX_DELAY example_rtos = - 1 \<and> portTICK_RATE_MS example_rtos = 1
   \<and> compute_dT example_rtos 7 7 = Fin (1 / 1000)
   \<and> (\<exists>d. compute_dT example_rtos 7 4 = Fin d \<and> 0 < d)"
proof -
  have a: "portMAX_DELAY example_rtos = - 1" and b: "portTICK_RATE_MS example_rtos = 1"
    by (simp_all add: example_rtos_def)
  from dT_positive [OF a b, of 7 4] a b show ?thesis by simp
qed

section \<open>The filter step\<close>

lemma q_updateAttitude:
  "q (updateAttitude lib cfg t attitudeRaw st) = renormalize (integrated_q cfg t attitudeRaw st)"
  by (simp add: updateAttitude_def Let_def)

lemma renormalize_diverged:
  "diverged (qmag_of v) \<Longrightarrow> renormalize v = (Fin 1, Fin 0, Fin 0, Fin 0)"
  by (cases v) (simp add: renormalize_def Let_def)

lemma qmag_of_nonneg: "qmag_of v = Fin r \<Longrightarrow> 0 \<le> r"
  by (cases v) (auto simp: qmag_of_def elim!: fsqrt.elims split: if_splits)

lemma fsqrt_not_NInf: "fsqrt x \<noteq> NInf"
  by (cases x) simp_all

lemma qmag_of_not_NInf: "qmag_of v \<noteq> NInf"
  by (cases v) (simp add: qmag_of_def fsqrt_not_NInf)

text \<open>
  C4.  If the norm of the quaternion after the integration step of an update is below
  \<open>10\<^sup>-\<^sup>3\<close> or is NaN, the quaternion stored by that update is exactly \<open>(1,0,0,0)\<close>,
  whatever the gyroscope and accelerometer readings, the gains and the state were.
\<close>

theorem divergence_recovery:
  assumes "qmag = qmag_of (integrated_q cfg t attitudeRaw st)"
    and "flt qmag (Fin (1 / 1000)) \<or> qmag = NaN"
  shows "q (updateAttitude lib cfg t attitudeRaw st) = (Fin 1, Fin 0, Fin 0, Fin 0)"
proof -
  have "diverged qmag"
  proof (cases qmag)
    case (Fin r)
    with assms(1) have "0 \<le> r" by (simp add: qmag_of_nonneg)
    with assms(2) Fin show ?thesis by (simp add: diverged_def)
  next
    case PInf
    with assms(2) show ?thesis by simp
  next
    case NInf
    with assms(1) show ?thesis by (metis qmag_of_not_NInf)
  next
    case NaN
    then show ?thesis by simp
  qed
  then show ?thesis
    using assms(1) by (simp add: q_updateAttitude renormalize_diverged)
qed


theorem divergence_recovery_witness:
  "flt (qmag_of (integrated_q example_rtos 5 (AttitudeRaw_zero\<lparr>accels := (Fin 0, Fin 0, Fin (- 1))\<rparr>)
          (example_state\<lparr>q := (Fin 0, Fin 0, Fin 0, Fin 0)\<rparr>))) (Fin (1 / 1000))
   \<and> q (updateAttitude example_libs example_rtos 5 (AttitudeRaw_zero\<lparr>accels := (Fin 0, Fin 0, Fin (- 1))\<rparr>)
          (example_state\<lparr>q := (Fin 0, Fin 0, Fin 0, Fin 0)\<rparr>)) = (Fin 1, Fin 0, Fin 0, Fin 0)"
proof -
  let ?st = "example_state\<lparr>q := (Fin 0, Fin 0, Fin 0, Fin 0)\<rparr>"
  let ?raw = "AttitudeRaw_zero\<lparr>accels := (Fin 0, Fin 0, Fin (- 1))\<rparr>"
  have "integrated_q example_rtos 5 ?raw ?st = (Fin 0, Fin 0, Fin 0, Fin 0)"
    by (simp add: integrated_q_def Let_def compute_dT_def example_rtos_def AttitudeRaw_zero_def
        example_state_def AttitudeInitialize_def boot_state_def Let_def accel_error_def CrossProduct_def
        correct_rates_def integrate_q_def float_of_uint_def)
  then have hyp: "flt (qmag_of (integrated_q example_rtos 5 ?raw ?st)) (Fin (1 / 1000))"
    by (simp add: qmag_of_def)
  from divergence_recovery [OF refl disjI1 [OF hyp], of example_libs] hyp show ?thesis
    by simp
qed

text \<open>
  C10.  When the divergence test of an update fires, the update differs from what it
  would otherwise store only in the quaternion (and in the attitude object derived from
  it): the quaternion is \<open>(1,0,0,0)\<close>, while the bias integral holds the value the integral
  feedback of this very update gave it, the time stamp is advanced, and every other
  variable is as before.  Nothing but the quaternion is reset.
\<close>

theorem divergence_resets_only_q:
  assumes "diverged (qmag_of (integrated_q cfg t attitudeRaw st))"
  shows "updateAttitude lib cfg t attitudeRaw st =
     st\<lparr>lastSysTime := t,
        gyro_correct_int :=
          accumulate_int (gyro_correct_int st) (accel_error (accels attitudeRaw) (q st)) (accelKi st),
        q := (Fin 1, Fin 0, Fin 0, Fin 0),
        AttitudeActualObj := attitude_of_q lib (Fin 1, Fin 0, Fin 0, Fin 0) (AttitudeActualObj st),
        events := events st @
          [AttitudeActualSet (attitude_of_q lib (Fin 1, Fin 0, Fin 0, Fin 0) (AttitudeActualObj st))]\<rparr>"
  using assms by (simp add: updateAttitude_def Let_def renormalize_diverged)

theorem divergence_resets_only_q_witness:
  "diverged (qmag_of (integrated_q example_rtos 5 AttitudeRaw_zero
       (example_state\<lparr>accelKi := Fin (9 / 10), gyro_correct_int := (Fin 1, Fin 2, Fin 3)\<rparr>)))
   \<and> q (updateAttitude example_libs example_rtos 5 AttitudeRaw_zero
       (example_state\<lparr>accelKi := Fin (9 / 10), gyro_correct_int := (Fin 1, Fin 2, Fin 3)\<rparr>))
     = (Fin 1, Fin 0, Fin 0, Fin 0)
   \<and> gyro_correct_int (updateAttitude example_libs example_rtos 5 AttitudeRaw_zero
       (example_state\<lparr>accelKi := Fin (9 / 10), gyro_correct_int := (Fin 1, Fin 2, Fin 3)\<rparr>))
     = (NaN, NaN, Fin 3)"
proof -
  let ?st = "example_state\<lparr>accelKi := Fin (9 / 10), gyro_correct_int := (Fin 1, Fin 2, Fin 3)\<rparr>"
  have st: "q ?st = (Fin 1, Fin 0, Fin 0, Fin 0)" "accelKp ?st = Fin 0"
    by (simp_all add: example_state_def AttitudeInitialize_def boot_state_def Let_def)
  have raw0: "accels AttitudeRaw_zero = (Fin 0, Fin 0, Fin 0)"
    "gyros AttitudeRaw_zero = (Fin 0, Fin 0, Fin 0)"
    by (simp_all add: AttitudeRaw_zero_def)
  have err: "accel_error (accels AttitudeRaw_zero) (q ?st) = (NaN, NaN, NaN)"
    unfolding st raw0 by (simp add: accel_error_def CrossProduct_def)
  have "integrated_q example_rtos 5 AttitudeRaw_zero ?st = (NaN, NaN, NaN, NaN)"
    unfolding integrated_q_def Let_def err unfolding st raw0
    by (simp add: correct_rates_def integrate_q_def)
  then have hyp: "diverged (qmag_of (integrated_q example_rtos 5 AttitudeRaw_zero ?st))"
    by (simp add: qmag_of_def)
  from divergence_resets_only_q [OF hyp, of example_libs] hyp err show ?thesis
    by (simp add: accumulate_int_def)
qed

section \<open>The norm of the quaternion, in the range of \<^verbatim>\<open>float\<close>\<close>

lemma updateAttitude_fl_exact:
  "updateAttitude_fl (\<lambda>x. x) lib cfg t attitudeRaw st = updateAttitude lib cfg t attitudeRaw st"
  by (simp add: updateAttitude_fl_def updateAttitude_def integrated_q_fl_def integrated_q_def
      renormalize_fl_def renormalize_def qmag_of_fl_def qmag_of_def integrate_q_fl_def integrate_q_def
      correct_rates_fl_def correct_rates_def accel_error_fl_def accel_error_def CrossProduct_fl_def
      CrossProduct_def compute_dT_fl_def compute_dT_def accumulate_int_fl_def accumulate_int_def)



subsection \<open>Values in range\<close>



lemma bnd_NaN [simp]: "bnd B NaN"
  by (simp add: bnd_def)

lemma bnd_Fin [simp]: "bnd B (Fin a) = (\<bar>a\<bar> \<le> B)"
  by (simp add: bnd_def)



















subsection \<open>The steps of an update\<close>






























subsection \<open>Overflow in the renormalisation\<close>












section \<open>The two FIFO loops\<close>

lemma wait_sample_skip:
  "(\<forall>i<k. f (n + i) = None) \<Longrightarrow> f (n + k) = Some s \<Longrightarrow> wait_sample f n = Some (s, Suc (n + k))"
proof (induction k arbitrary: n)
  case 0
  then show ?case by (subst wait_sample.simps) simp
next
  case (Suc k)
  have "f n = None" using Suc.prems(1) [rule_format, of 0] by simp
  moreover have "wait_sample f (Suc n) = Some (s, Suc (Suc n + k))"
  proof (rule Suc.IH)
    show "\<forall>i<k. f (Suc n + i) = None"
      using Suc.prems(1) by (metis add_Suc_shift Suc_less_eq)
    show "f (Suc n + k) = Some s" using Suc.prems(2) by simp
  qed
  ultimately show ?case by (subst wait_sample.simps) simp
qed

lemma wait_sample_Some_ex:
  assumes "wait_sample f n = Some r"
  shows "\<exists>i\<ge>n. f i \<noteq> None"
proof (rule wait_sample.raw_induct [where P = "\<lambda>f n r. \<exists>i\<ge>n. f i \<noteq> None", OF _ assms])
  fix w and g :: "nat \<Rightarrow> 'a option" and m :: nat and r' :: "'a \<times> nat"
  assume IH: "\<And>h b y. w h b = Some y \<Longrightarrow> \<exists>i\<ge>b. h i \<noteq> None"
    and eq: "(case g m of None \<Rightarrow> w g (Suc m) | Some s \<Rightarrow> Some (s, Suc m)) = Some r'"
  show "\<exists>i\<ge>m. g i \<noteq> None"
  proof (cases "g m")
    case None
    with eq have "w g (Suc m) = Some r'" by simp
    from IH [OF this] obtain i where "i \<ge> Suc m" "g i \<noteq> None" by blast
    then show ?thesis by (metis Suc_leD)
  next
    case (Some a)
    then show ?thesis by auto
  qed
qed

lemma wait_sample_stalled: "(\<forall>i. f i = None) \<Longrightarrow> wait_sample f n = None"
  using wait_sample_Some_ex [of f n] by (cases "wait_sample f n") auto

lemma drain_fifo_list:
  "(\<forall>i<length xs. f (n + i) = Some (xs ! i)) \<Longrightarrow> f (n + length xs) = None \<Longrightarrow>
   drain_fifo ac f n count accum s =
     Some (count + of_nat (Suc (length xs)), foldl ac accum (s # xs), last (s # xs))"
proof (induction xs arbitrary: n count accum s)
  case Nil
  then show ?case by (subst drain_fifo.simps) simp
next
  case (Cons x xs)
  have fn: "f n = Some x" using Cons.prems(1) [rule_format, of 0] by simp
  have "drain_fifo ac f (Suc n) (count + 1) (ac accum s) x =
     Some (count + 1 + of_nat (Suc (length xs)), foldl ac (ac accum s) (x # xs), last (x # xs))"
  proof (rule Cons.IH)
    show "\<forall>i<length xs. f (Suc n + i) = Some (xs ! i)"
    proof (intro allI impI)
      fix i assume "i < length xs"
      then have "f (n + Suc i) = Some ((x # xs) ! Suc i)"
        using Cons.prems(1) by (metis Suc_less_eq length_Cons)
      then show "f (Suc n + i) = Some (xs ! i)" by simp
    qed
    show "f (Suc n + length xs) = None" using Cons.prems(2) by simp
  qed
  with fn show ?case by (subst drain_fifo.simps) (simp add: add.assoc)
qed

text \<open>Both loops on a FIFO that delivers a non-empty list of samples: the drain counts
  every sample, accumulates every sample and keeps the last one.\<close>

lemma loops_deliver:
  assumes "fifo_delivers f k xs" and "xs \<noteq> []"
  shows "\<exists>n. wait_sample f 0 = Some (hd xs, n) \<and>
           drain_fifo ac f n 0 accum (hd xs) = Some (of_nat (length xs), foldl ac accum xs, last xs)"
proof -
  from assms(2) obtain x rest where xs: "xs = x # rest" by (cases xs) auto
  have none: "\<forall>i<k. f (0 + i) = None" and some: "\<forall>i<length xs. f (k + i) = Some (xs ! i)"
    and stop: "f (k + length xs) = None"
    using assms(1) by (simp_all add: fifo_delivers_def)
  have "f (0 + k) = Some x" using some [rule_format, of 0] by (simp add: xs)
  with none have w: "wait_sample f 0 = Some (x, Suc (0 + k))" by (rule wait_sample_skip)
  have "drain_fifo ac f (Suc k) 0 accum x =
      Some (0 + of_nat (Suc (length rest)), foldl ac accum (x # rest), last (x # rest))"
  proof (rule drain_fifo_list)
    show "\<forall>i<length rest. f (Suc k + i) = Some (rest ! i)"
    proof (intro allI impI)
      fix i assume "i < length rest"
      then have "Suc i < length xs" by (simp add: xs)
      with some have "f (k + Suc i) = Some (xs ! Suc i)" by blast
      then show "f (Suc k + i) = Some (rest ! i)" by (simp add: xs)
    qed
    show "f (Suc k + length rest) = None" using stop by (simp add: xs)
  qed
  with w show ?thesis by (simp add: xs)
qed

lemma fifo_script_delivers: "fifo_delivers (fifo_script k xs) k xs"
  by (simp add: fifo_delivers_def fifo_script_def)

lemma foldl_accumulate_accel:
  "foldl accumulate_accel (a0, a1, a2) xs =
     (a0 + sum_list (map (\<lambda>s. scast (accel_x s)) xs),
      a1 + sum_list (map (\<lambda>s. scast (accel_y s)) xs),
      a2 + sum_list (map (\<lambda>s. scast (accel_z s)) xs))"
  by (induction xs arbitrary: a0 a1 a2) (simp_all add: accumulate_accel_def add.assoc)

lemma foldl_accumulate_gyro:
  "foldl accumulate_gyro (a0, a1, a2) xs =
     (a0 + sum_list (map (\<lambda>s. scast (gyro_x s)) xs),
      a1 + sum_list (map (\<lambda>s. scast (gyro_y s)) xs),
      a2 + sum_list (map (\<lambda>s. scast (gyro_z s)) xs))"
  by (induction xs arbitrary: a0 a1 a2) (simp_all add: accumulate_gyro_def add.assoc)

section \<open>\<^verbatim>\<open>updateSensors\<close> and the loop of the task\<close>

lemma read_accels_delivers:
  assumes "fifo_delivers (PIOS_BMA180_ReadFifo env) k xs" and "xs \<noteq> []"
    and "accel_accum st = (0, 0, 0)"
  shows "read_accels env attitudeRaw st =
     Some (attitudeRaw\<lparr>accels :=
             (float_of_sint (sum_list (map (\<lambda>s. scast (accel_x s) :: 32 word) xs))
                * (PIOS_BMA180_GetScale env / float_of_uint (of_nat (length xs) :: 32 word)),
              float_of_sint (sum_list (map (\<lambda>s. scast (accel_y s) :: 32 word) xs))
                * (PIOS_BMA180_GetScale env / float_of_uint (of_nat (length xs) :: 32 word)),
              float_of_sint (sum_list (map (\<lambda>s. scast (accel_z s) :: 32 word) xs))
                * (PIOS_BMA180_GetScale env / float_of_uint (of_nat (length xs) :: 32 word)))\<rparr>,
           st\<lparr>accel := last xs,
              accel_accum := (sum_list (map (\<lambda>s. scast (accel_x s)) xs),
                              sum_list (map (\<lambda>s. scast (accel_y s)) xs),
                              sum_list (map (\<lambda>s. scast (accel_z s)) xs)),
              accel_samples := of_nat (length xs),
              scaling := PIOS_BMA180_GetScale env / float_of_uint (of_nat (length xs) :: 32 word)\<rparr>)"
proof -
  from loops_deliver [OF assms(1,2), of accumulate_accel "(0, 0, 0)"]
  obtain n where "wait_sample (PIOS_BMA180_ReadFifo env) 0 = Some (hd xs, n)"
    and "drain_fifo accumulate_accel (PIOS_BMA180_ReadFifo env) n 0 (0, 0, 0) (hd xs) =
           Some (of_nat (length xs), foldl accumulate_accel (0, 0, 0) xs, last xs)"
    by blast
  then show ?thesis
    by (simp add: read_accels_def assms(3) foldl_accumulate_accel Let_def)
qed

lemma read_gyros_delivers:
  assumes "fifo_delivers (PIOS_MPU6050_ReadFifo env) k xs" and "xs \<noteq> []"
    and "gyro_accum st = (0, 0, 0)"
  shows "read_gyros env attitudeRaw st =
     Some (attitudeRaw\<lparr>gyros :=
             (- float_of_sint (sum_list (map (\<lambda>s. scast (gyro_y s) :: 32 word) xs))
                * (PIOS_MPU6050_GetScale env / float_of_uint (of_nat (length xs) :: 32 word)),
              - float_of_sint (sum_list (map (\<lambda>s. scast (gyro_x s) :: 32 word) xs))
                * (PIOS_MPU6050_GetScale env / float_of_uint (of_nat (length xs) :: 32 word)),
              - float_of_sint (sum_list (map (\<lambda>s. scast (gyro_z s) :: 32 word) xs))
                * (PIOS_MPU6050_GetScale env / float_of_uint (of_nat (length xs) :: 32 word)))\<rparr>,
           st\<lparr>gyro := last xs,
              gyro_accum := (sum_list (map (\<lambda>s. scast (gyro_x s)) xs),
                             sum_list (map (\<lambda>s. scast (gyro_y s)) xs),
                             sum_list (map (\<lambda>s. scast (gyro_z s)) xs)),
              gyro_samples := of_nat (length xs),
              scaling := PIOS_MPU6050_GetScale env / float_of_uint (of_nat (length xs) :: 32 word)\<rparr>)"
proof -
  from loops_deliver [OF assms(1,2), of accumulate_gyro "(0, 0, 0)"]
  obtain n where "wait_sample (PIOS_MPU6050_ReadFifo env) 0 = Some (hd xs, n)"
    and "drain_fifo accumulate_gyro (PIOS_MPU6050_ReadFifo env) n 0 (0, 0, 0) (hd xs) =
           Some (of_nat (length xs), foldl accumulate_gyro (0, 0, 0) xs, last xs)"
    by blast
  then show ?thesis
    by (simp add: read_gyros_def assms(3) foldl_accumulate_gyro Let_def)
qed

text \<open>How a returning call of \<^verbatim>\<open>updateSensors\<close> decomposes into its stages.\<close>

lemma read_accels_SomeD:
  assumes "read_accels env attitudeRaw st = Some (ar, s)"
  shows "\<exists>count a0 a1 a2 last_s.
           s = st\<lparr>accel := last_s, accel_accum := (a0, a1, a2), accel_samples := count,
                   scaling := PIOS_BMA180_GetScale env / float_of_uint count\<rparr> \<and>
           ar = attitudeRaw\<lparr>accels :=
                  (float_of_sint a0 * (PIOS_BMA180_GetScale env / float_of_uint count),
                   float_of_sint a1 * (PIOS_BMA180_GetScale env / float_of_uint count),
                   float_of_sint a2 * (PIOS_BMA180_GetScale env / float_of_uint count))\<rparr>"
proof -
  from assms obtain s0 n where w: "wait_sample (PIOS_BMA180_ReadFifo env) 0 = Some (s0, n)"
    by (auto simp: read_accels_def split: option.splits)
  with assms obtain count a0 a1 a2 last_s where
    d: "drain_fifo accumulate_accel (PIOS_BMA180_ReadFifo env) n 0 (accel_accum st) s0 =
          Some (count, (a0, a1, a2), last_s)"
    by (auto simp: read_accels_def split: option.splits prod.splits)
  from assms w d have
    "s = st\<lparr>accel := last_s, accel_accum := (a0, a1, a2), accel_samples := count,
             scaling := PIOS_BMA180_GetScale env / float_of_uint count\<rparr> \<and>
     ar = attitudeRaw\<lparr>accels :=
            (float_of_sint a0 * (PIOS_BMA180_GetScale env / float_of_uint count),
             float_of_sint a1 * (PIOS_BMA180_GetScale env / float_of_uint count),
             float_of_sint a2 * (PIOS_BMA180_GetScale env / float_of_uint count))\<rparr>"
    by (simp add: read_accels_def Let_def)
  then show ?thesis by blast
qed

lemma read_gyros_SomeD:
  assumes "read_gyros env attitudeRaw st = Some (ar, s)"
  shows "\<exists>count a0 a1 a2 last_s.
           s = st\<lparr>gyro := last_s, gyro_accum := (a0, a1, a2), gyro_samples := count,
                   scaling := PIOS_MPU6050_GetScale env / float_of_uint count\<rparr> \<and>
           ar = attitudeRaw\<lparr>gyros :=
                  (- float_of_sint a1 * (PIOS_MPU6050_GetScale env / float_of_uint count),
                   - float_of_sint a0 * (PIOS_MPU6050_GetScale env / float_of_uint count),
                   - float_of_sint a2 * (PIOS_MPU6050_GetScale env / float_of_uint count))\<rparr>"
proof -
  from assms obtain s0 n where w: "wait_sample (PIOS_MPU6050_ReadFifo env) 0 = Some (s0, n)"
    by (auto simp: read_gyros_def split: option.splits)
  with assms obtain count a0 a1 a2 last_s where
    d: "drain_fifo accumulate_gyro (PIOS_MPU6050_ReadFifo env) n 0 (gyro_accum st) s0 =
          Some (count, (a0, a1, a2), last_s)"
    by (auto simp: read_gyros_def split: option.splits prod.splits)
  from assms w d have
    "s = st\<lparr>gyro := last_s, gyro_accum := (a0, a1, a2), gyro_samples := count,
             scaling := PIOS_MPU6050_GetScale env / float_of_uint count\<rparr> \<and>
     ar = attitudeRaw\<lparr>gyros :=
            (- float_of_sint a1 * (PIOS_MPU6050_GetScale env / float_of_uint count),
             - float_of_sint a0 * (PIOS_MPU6050_GetScale env / float_of_uint count),
             - float_of_sint a2 * (PIOS_MPU6050_GetScale env / float_of_uint count))\<rparr>"
    by (simp add: read_gyros_def Let_def)
  then show ?thesis by blast
qed

lemma updateSensors_SomeD:
  assumes "updateSensors lib env attitudeRaw st = Some (ret, attitudeRaw', st')"
  shows "\<exists>ar1 s1 ar2 s2 ar3 s3 ar4 s4.
           read_accels env attitudeRaw
             (st\<lparr>accel_accum := (0, 0, 0), gyro_accum := (0, 0, 0),
                 accel_samples := 0, gyro_samples := 0\<rparr>) = Some (ar1, s1) \<and>
           read_gyros env ar1 s1 = Some (ar2, s2) \<and>
           read_temperatures ar2 s2 = (ar3, s3) \<and>
           correct_bias ar3 s3 = (ar4, s4) \<and>
           ret = 0 \<and> attitudeRaw' = read_mag env ar4 \<and>
           st' = update_baro lib env
                   (s4\<lparr>AttitudeRawObj := raw s4, events := events s4 @ [AttitudeRawSet (raw s4)]\<rparr>)"
  using assms
  by (auto simp: updateSensors_def Let_def split: option.splits prod.splits)

lemma read_temperatures_state:
  "read_temperatures ar s = (ar', s') \<Longrightarrow> \<exists>g. s' = s\<lparr>gyro := g\<rparr>"
  by (auto simp: read_temperatures_def Let_def)

lemma read_temperatures_raw:
  "read_temperatures ar s = (ar', s') \<Longrightarrow> accels ar' = accels ar \<and> gyros ar' = gyros ar"
  by (auto simp: read_temperatures_def Let_def)

lemma correct_bias_state:
  "correct_bias ar s = (ar', s') \<Longrightarrow>
     s' = s\<lparr>gyro_correct_int :=
             (fst (gyro_correct_int s), fst (snd (gyro_correct_int s)),
              third (gyro_correct_int s) + - third (gyros ar') * yawBiasRate s)\<rparr>"
  by (auto simp: correct_bias_def Let_def third_def split: prod.splits if_splits)

lemma correct_bias_raw:
  "correct_bias ar s = (ar', s') \<Longrightarrow>
     accels ar' = accels ar \<and>
     gyros ar' = (if bias_correct_gyro s
                  then (fst (gyros ar) + fst (gyro_correct_int s),
                        fst (snd (gyros ar)) + fst (snd (gyro_correct_int s)),
                        third (gyros ar) + third (gyro_correct_int s))
                  else gyros ar)"
  by (auto simp: correct_bias_def Let_def third_def split: prod.splits if_splits)

lemma read_mag_raw: "accels (read_mag env ar) = accels ar \<and> gyros (read_mag env ar) = gyros ar"
  by (simp add: read_mag_def split: option.splits prod.splits)

lemma update_baro_state:
  "\<exists>n b bev. update_baro lib env s = s\<lparr>baro_conversions := n, BaroAltitudeObj := b,
                                          events := events s @ bev\<rparr>
             \<and> filter is_AttitudeRawSet bev = [] \<and> filter is_AttitudeActualSet bev = []
             \<and> filter is_settings_read bev = [] \<and> AlarmsSet_ATTITUDE_ERROR \<notin> set bev"
proof (cases "PIOS_BMP085_ReadADC env = 0")
  case False
  then have "update_baro lib env s =
      s\<lparr>baro_conversions := baro_conversions s, BaroAltitudeObj := BaroAltitudeObj s,
        events := events s @ []\<rparr>"
    by (simp add: update_baro_def)
  moreover have "filter is_AttitudeRawSet [] = []" "filter is_AttitudeActualSet [] = []"
    "filter is_settings_read [] = []" "AlarmsSet_ATTITUDE_ERROR \<notin> set []"
    by simp_all
  ultimately show ?thesis by blast
next
  case True
  show ?thesis
  proof (cases "baro_conversions s mod 2 \<noteq> 0")
    case odd: True
    have "update_baro lib env s =
        s\<lparr>baro_conversions := baro_conversions s + 1, BaroAltitudeObj := BaroAltitudeObj s,
          events := events s @ [PIOS_BMP085_StartADC PressureConv]\<rparr>"
      using True odd by (simp add: update_baro_def Let_def)
    moreover have "filter is_AttitudeRawSet [PIOS_BMP085_StartADC PressureConv] = []"
      "filter is_AttitudeActualSet [PIOS_BMP085_StartADC PressureConv] = []"
      "filter is_settings_read [PIOS_BMP085_StartADC PressureConv] = []"
      "AlarmsSet_ATTITUDE_ERROR \<notin> set [PIOS_BMP085_StartADC PressureConv]"
      by simp_all
    ultimately show ?thesis by blast
  next
    case even: False
    define data where "data = (BaroAltitudeObj s)
        \<lparr>Altitude := (Fin 1 - powf lib (PIOS_BMP085_GetPressure env / BMP085_P0) (Fin 1 / Fin (5255 / 1000)))
                       * Fin 44330,
         Pressure := PIOS_BMP085_GetPressure env / Fin 1000,
         Temperature := PIOS_BMP085_GetTemperature env / Fin 10\<rparr>"
    have "update_baro lib env s =
        s\<lparr>baro_conversions := baro_conversions s + 1, BaroAltitudeObj := data,
          events := events s @ [PIOS_BMP085_StartADC TemperatureConv, BaroAltitudeSet data]\<rparr>"
      using True even by (simp add: update_baro_def Let_def data_def)
    moreover have "filter is_AttitudeRawSet [PIOS_BMP085_StartADC TemperatureConv, BaroAltitudeSet data] = []"
      "filter is_AttitudeActualSet [PIOS_BMP085_StartADC TemperatureConv, BaroAltitudeSet data] = []"
      "filter is_settings_read [PIOS_BMP085_StartADC TemperatureConv, BaroAltitudeSet data] = []"
      "AlarmsSet_ATTITUDE_ERROR \<notin> set [PIOS_BMP085_StartADC TemperatureConv, BaroAltitudeSet data]"
      by simp_all
    ultimately show ?thesis by blast
  qed
qed

text \<open>The whole effect of a returning call on the state: scratch variables of the two
  drains, the yaw component of the bias integral, the barometer, the published raw
  object (always the variable \<open>raw\<close>) and the log.\<close>

lemma updateSensors_effect:
  assumes "updateSensors lib env attitudeRaw st = Some (ret, attitudeRaw', st')"
  shows "\<exists>a aa an g ga gn sc gci n b bev.
     st' = st\<lparr>accel := a, accel_accum := aa, accel_samples := an,
              gyro := g, gyro_accum := ga, gyro_samples := gn, scaling := sc,
              gyro_correct_int := gci, baro_conversions := n, BaroAltitudeObj := b,
              AttitudeRawObj := raw st,
              events := events st @ AttitudeRawSet (raw st) # bev\<rparr>
     \<and> filter is_AttitudeRawSet bev = [] \<and> filter is_AttitudeActualSet bev = []
     \<and> filter is_settings_read bev = [] \<and> AlarmsSet_ATTITUDE_ERROR \<notin> set bev"
proof -
  from updateSensors_SomeD [OF assms] obtain ar1 s1 ar2 s2 ar3 s3 ar4 s4 where
    ra: "read_accels env attitudeRaw
             (st\<lparr>accel_accum := (0, 0, 0), gyro_accum := (0, 0, 0),
                 accel_samples := 0, gyro_samples := 0\<rparr>) = Some (ar1, s1)"
    and rg: "read_gyros env ar1 s1 = Some (ar2, s2)"
    and rt: "read_temperatures ar2 s2 = (ar3, s3)"
    and cb: "correct_bias ar3 s3 = (ar4, s4)"
    and st': "st' = update_baro lib env
                   (s4\<lparr>AttitudeRawObj := raw s4, events := events s4 @ [AttitudeRawSet (raw s4)]\<rparr>)"
    by blast
  from read_accels_SomeD [OF ra] obtain an a0 a1 a2 a where
    s1: "s1 = st\<lparr>accel_accum := (0, 0, 0), gyro_accum := (0, 0, 0),
                 accel_samples := 0, gyro_samples := 0,
                 accel := a, accel_accum := (a0, a1, a2), accel_samples := an,
                 scaling := PIOS_BMA180_GetScale env / float_of_uint an\<rparr>"
    by blast
  from read_gyros_SomeD [OF rg] obtain gn g0 g1 g2 g where
    s2: "s2 = s1\<lparr>gyro := g, gyro_accum := (g0, g1, g2), gyro_samples := gn,
                 scaling := PIOS_MPU6050_GetScale env / float_of_uint gn\<rparr>"
    by blast
  from read_temperatures_state [OF rt] obtain g' where s3: "s3 = s2\<lparr>gyro := g'\<rparr>" by blast
  from correct_bias_state [OF cb] obtain gci where s4: "s4 = s3\<lparr>gyro_correct_int := gci\<rparr>"
    by blast
  let ?s5 = "s4\<lparr>AttitudeRawObj := raw s4, events := events s4 @ [AttitudeRawSet (raw s4)]\<rparr>"
  from update_baro_state [of lib env ?s5] obtain n b bev where
    ub: "update_baro lib env ?s5 = ?s5\<lparr>baro_conversions := n, BaroAltitudeObj := b,
                                        events := events ?s5 @ bev\<rparr>"
    and bev: "filter is_AttitudeRawSet bev = []" "filter is_AttitudeActualSet bev = []"
      "filter is_settings_read bev = []" "AlarmsSet_ATTITUDE_ERROR \<notin> set bev"
    by blast
  have "st' = st\<lparr>accel := a, accel_accum := (a0, a1, a2), accel_samples := an,
              gyro := g', gyro_accum := (g0, g1, g2), gyro_samples := gn,
              scaling := PIOS_MPU6050_GetScale env / float_of_uint gn,
              gyro_correct_int := gci, baro_conversions := n, BaroAltitudeObj := b,
              AttitudeRawObj := raw st,
              events := events st @ AttitudeRawSet (raw st) # bev\<rparr>"
    unfolding st' ub by (simp add: s4 s3 s2 s1)
  with bev show ?thesis by blast
qed

lemma updateSensors_returns_0:
  "updateSensors lib env attitudeRaw st = Some (ret, attitudeRaw', st') \<Longrightarrow> ret = 0"
  using updateSensors_SomeD by blast

lemma schedule_gains_cases:
  "schedule_gains ce st =
     (if startup_window ce \<or> arming_zero ce st
      then st\<lparr>accelKp := Fin 1, accelKi := Fin (9 / 10), yawBiasRate := Fin (23 / 100), init := 0\<rparr>
      else if init st = 0
      then st\<lparr>accelKi := AccelKi (AttitudeSettingsGet ce),
              accelKp := AccelKp (AttitudeSettingsGet ce),
              yawBiasRate := YawBiasRate (AttitudeSettingsGet ce),
              init := 1,
              events := events st @ [AttitudeSettingsAccelKiGet, AttitudeSettingsAccelKpGet,
                                     AttitudeSettingsYawBiasRateGet]\<rparr>
      else st)"
  by (simp add: schedule_gains_def startup_window_def arming_zero_def)

lemma schedule_gains_frame:
  "\<exists>kp ki ybr i sev.
     schedule_gains ce st =
       st\<lparr>accelKp := kp, accelKi := ki, yawBiasRate := ybr, init := i, events := events st @ sev\<rparr>
     \<and> filter is_AttitudeRawSet sev = [] \<and> filter is_AttitudeActualSet sev = []
     \<and> AlarmsSet_ATTITUDE_ERROR \<notin> set sev"
proof -
  let ?gets = "[AttitudeSettingsAccelKiGet, AttitudeSettingsAccelKpGet, AttitudeSettingsYawBiasRateGet]"
  have g: "filter is_AttitudeRawSet ?gets = []" "filter is_AttitudeActualSet ?gets = []"
    "AlarmsSet_ATTITUDE_ERROR \<notin> set ?gets"
    by simp_all
  have e: "filter is_AttitudeRawSet [] = []" "filter is_AttitudeActualSet [] = []"
    "AlarmsSet_ATTITUDE_ERROR \<notin> set []"
    by simp_all
  consider (high) "startup_window ce \<or> arming_zero ce st"
    | (load) "\<not> (startup_window ce \<or> arming_zero ce st)" "init st = 0"
    | (keep) "\<not> (startup_window ce \<or> arming_zero ce st)" "init st \<noteq> 0"
    by blast
  then show ?thesis
  proof cases
    case high
    then have "schedule_gains ce st =
        st\<lparr>accelKp := Fin 1, accelKi := Fin (9 / 10), yawBiasRate := Fin (23 / 100), init := 0,
           events := events st @ []\<rparr>"
      by (simp add: schedule_gains_cases)
    with e show ?thesis by blast
  next
    case load
    then have "schedule_gains ce st =
        st\<lparr>accelKp := AccelKp (AttitudeSettingsGet ce), accelKi := AccelKi (AttitudeSettingsGet ce),
           yawBiasRate := YawBiasRate (AttitudeSettingsGet ce), init := 1,
           events := events st @ ?gets\<rparr>"
      by (simp add: schedule_gains_cases)
    with g show ?thesis by blast
  next
    case keep
    then have "schedule_gains ce st =
        st\<lparr>accelKp := accelKp st, accelKi := accelKi st, yawBiasRate := yawBiasRate st,
           init := init st, events := events st @ []\<rparr>"
      by (simp add: schedule_gains_cases)
    with e show ?thesis by blast
  qed
qed

text \<open>One returning iteration of the loop: the scheduler, the watchdog flag, the call of
  \<^verbatim>\<open>updateSensors\<close> (which returns 0), the publication of the caller's record, the alarm
  cleared.\<close>

lemma cycle_effect:
  assumes "AttitudeTask_cycle lib ce st = Some st'"
  shows "\<exists>s1 s3 attitudeRaw'.
     s1 = (schedule_gains ce st)\<lparr>events := events (schedule_gains ce st) @ [PIOS_WDG_UpdateFlag]\<rparr>
     \<and> updateSensors lib (sensors ce) (AttitudeRawObj s1) s1 = Some (0, attitudeRaw', s3)
     \<and> st' = s3\<lparr>AttitudeRawObj := attitudeRaw', alarm_ATTITUDE := False,
                 events := events s3 @ [AttitudeRawSet attitudeRaw', AlarmsClear_ATTITUDE]\<rparr>"
proof -
  let ?s1 = "(schedule_gains ce st)\<lparr>events := events (schedule_gains ce st) @ [PIOS_WDG_UpdateFlag]\<rparr>"
  from assms obtain ret attitudeRaw' s3 where
    us: "updateSensors lib (sensors ce) (AttitudeRawObj ?s1) ?s1 = Some (ret, attitudeRaw', s3)"
    by (auto simp: AttitudeTask_cycle_def Let_def split: option.splits)
  then have ret: "ret = 0" by (rule updateSensors_returns_0)
  from assms us ret have
    "st' = s3\<lparr>AttitudeRawObj := attitudeRaw', alarm_ATTITUDE := False,
              events := events s3 @ [AttitudeRawSet attitudeRaw', AlarmsClear_ATTITUDE]\<rparr>"
    by (simp add: AttitudeTask_cycle_def Let_def)
  with us ret show ?thesis by blast
qed

text \<open>The events of a returning iteration, and the variables it leaves alone.\<close>

lemma cycle_frame:
  assumes "AttitudeTask_cycle lib ce st = Some st'"
  shows "\<exists>sev bev.
     events (schedule_gains ce st) = events st @ sev
     \<and> events st' = events st @ sev @ [PIOS_WDG_UpdateFlag, AttitudeRawSet (raw st)] @ bev
                       @ [AttitudeRawSet (AttitudeRawObj st'), AlarmsClear_ATTITUDE]
     \<and> filter is_AttitudeRawSet sev = [] \<and> filter is_AttitudeActualSet sev = []
     \<and> AlarmsSet_ATTITUDE_ERROR \<notin> set sev
     \<and> filter is_AttitudeRawSet bev = [] \<and> filter is_AttitudeActualSet bev = []
     \<and> filter is_settings_read bev = [] \<and> AlarmsSet_ATTITUDE_ERROR \<notin> set bev
     \<and> q st' = q st \<and> AttitudeActualObj st' = AttitudeActualObj st \<and> raw st' = raw st
     \<and> lastSysTime st' = lastSysTime st
     \<and> zero_during_arming st' = zero_during_arming st
     \<and> bias_correct_gyro st' = bias_correct_gyro st
     \<and> gains st' = gains (schedule_gains ce st) \<and> init st' = init (schedule_gains ce st)
     \<and> alarm_ATTITUDE st' = False"
proof -
  from cycle_effect [OF assms] obtain s1 s3 attitudeRaw' where
    s1: "s1 = (schedule_gains ce st)\<lparr>events := events (schedule_gains ce st) @ [PIOS_WDG_UpdateFlag]\<rparr>"
    and us: "updateSensors lib (sensors ce) (AttitudeRawObj s1) s1 = Some (0, attitudeRaw', s3)"
    and st': "st' = s3\<lparr>AttitudeRawObj := attitudeRaw', alarm_ATTITUDE := False,
                 events := events s3 @ [AttitudeRawSet attitudeRaw', AlarmsClear_ATTITUDE]\<rparr>"
    by blast
  from schedule_gains_frame [of ce st] obtain kp ki ybr i sev where
    sg: "schedule_gains ce st =
       st\<lparr>accelKp := kp, accelKi := ki, yawBiasRate := ybr, init := i, events := events st @ sev\<rparr>"
    and sev: "filter is_AttitudeRawSet sev = []" "filter is_AttitudeActualSet sev = []"
      "AlarmsSet_ATTITUDE_ERROR \<notin> set sev"
    by blast
  from updateSensors_effect [OF us] obtain a aa an g ga gn sc gci n b bev where
    s3: "s3 = s1\<lparr>accel := a, accel_accum := aa, accel_samples := an,
              gyro := g, gyro_accum := ga, gyro_samples := gn, scaling := sc,
              gyro_correct_int := gci, baro_conversions := n, BaroAltitudeObj := b,
              AttitudeRawObj := raw s1,
              events := events s1 @ AttitudeRawSet (raw s1) # bev\<rparr>"
    and bev: "filter is_AttitudeRawSet bev = []" "filter is_AttitudeActualSet bev = []"
      "filter is_settings_read bev = []" "AlarmsSet_ATTITUDE_ERROR \<notin> set bev"
    by blast
  have ev: "events (schedule_gains ce st) = events st @ sev"
    by (subst sg) simp
  have fields: "raw s1 = raw st" "q s1 = q st" "AttitudeActualObj s1 = AttitudeActualObj st"
    "lastSysTime s1 = lastSysTime st" "zero_during_arming s1 = zero_during_arming st"
    "bias_correct_gyro s1 = bias_correct_gyro st"
    unfolding s1 by (subst sg, simp)+
  have g1: "gains s1 = gains (schedule_gains ce st)" "init s1 = init (schedule_gains ce st)"
    "events s1 = events st @ sev @ [PIOS_WDG_UpdateFlag]"
    unfolding s1 by (simp_all add: gains_def ev)
  have "events st' = events st @ sev @ [PIOS_WDG_UpdateFlag, AttitudeRawSet (raw st)] @ bev
                       @ [AttitudeRawSet (AttitudeRawObj st'), AlarmsClear_ATTITUDE]"
    unfolding st' s3 by (simp add: g1 fields)
  moreover have "q st' = q st" "AttitudeActualObj st' = AttitudeActualObj st" "raw st' = raw st"
    "lastSysTime st' = lastSysTime st" "zero_during_arming st' = zero_during_arming st"
    "bias_correct_gyro st' = bias_correct_gyro st" "alarm_ATTITUDE st' = False"
    unfolding st' s3 by (simp_all add: fields)
  moreover have "gains st' = gains (schedule_gains ce st)" "init st' = init (schedule_gains ce st)"
    unfolding st' s3 using g1 by (simp_all add: gains_def)
  ultimately show ?thesis using ev sev bev by blast
qed

lemma new_events_append: "events st' = events st @ es \<Longrightarrow> new_events st st' = es"
  by (simp add: new_events_def)

text \<open>When both FIFOs deliver at least one sample, the call and the iteration return.\<close>

lemma updateSensors_delivers:
  assumes "fifo_delivers (PIOS_BMA180_ReadFifo env) k xs" and "xs \<noteq> []"
    and "fifo_delivers (PIOS_MPU6050_ReadFifo env) k' ys" and "ys \<noteq> []"
  shows "\<exists>attitudeRaw' st'. updateSensors lib env attitudeRaw st = Some (0, attitudeRaw', st')"
proof -
  let ?st0 = "st\<lparr>accel_accum := (0, 0, 0), gyro_accum := (0, 0, 0),
                  accel_samples := 0, gyro_samples := 0\<rparr>"
  have "accel_accum ?st0 = (0, 0, 0)" by simp
  from read_accels_delivers [OF assms(1,2) this, of attitudeRaw]
  obtain ar1 s1 where ra: "read_accels env attitudeRaw ?st0 = Some (ar1, s1)"
    and "gyro_accum s1 = (0, 0, 0)"
    by simp
  from read_gyros_delivers [OF assms(3,4) this(2), of ar1]
  obtain ar2 s2 where rg: "read_gyros env ar1 s1 = Some (ar2, s2)"
    by simp
  show ?thesis
    by (simp add: updateSensors_def Let_def ra rg split: prod.splits)
qed

lemma cycle_returns:
  assumes "fifo_delivers (PIOS_BMA180_ReadFifo (sensors ce)) k xs" and "xs \<noteq> []"
    and "fifo_delivers (PIOS_MPU6050_ReadFifo (sensors ce)) k' ys" and "ys \<noteq> []"
  shows "\<exists>st'. AttitudeTask_cycle lib ce st = Some st'"
proof -
  let ?s1 = "(schedule_gains ce st)\<lparr>events := events (schedule_gains ce st) @ [PIOS_WDG_UpdateFlag]\<rparr>"
  from updateSensors_delivers [OF assms, of lib "AttitudeRawObj ?s1" ?s1]
  obtain attitudeRaw' s3 where
    "updateSensors lib (sensors ce) (AttitudeRawObj ?s1) ?s1 = Some (0, attitudeRaw', s3)"
    by blast
  then show ?thesis
    by (simp add: AttitudeTask_cycle_def Let_def)
qed

lemma example_cycle_returns: "\<exists>st'. AttitudeTask_cycle lib (example_cycle t) st = Some st'"
proof (rule cycle_returns)
  show "fifo_delivers (PIOS_BMA180_ReadFifo (sensors (example_cycle t))) 0
          [accel_sample 1 2 (- 3), accel_sample 3 2 (- 5)]"
    by (simp add: example_cycle_def example_sensors_def fifo_script_delivers)
  show "fifo_delivers (PIOS_MPU6050_ReadFifo (sensors (example_cycle t))) 0 [gyro_sample 0 0 0]"
    by (simp add: example_cycle_def example_sensors_def fifo_script_delivers)
qed simp_all

lemma cycle_keeps_attitude:
  assumes "AttitudeTask_cycle lib ce st = Some st'"
  shows "alarm_ATTITUDE st' = False \<and> q st' = q st \<and> lastSysTime st' = lastSysTime st
    \<and> AttitudeActualObj st' = AttitudeActualObj st
    \<and> filter is_AttitudeActualSet (new_events st st') = []"
proof -
  from cycle_frame [OF assms] obtain sev bev where
    ev: "events st' = events st @ sev @ [PIOS_WDG_UpdateFlag, AttitudeRawSet (raw st)] @ bev
                       @ [AttitudeRawSet (AttitudeRawObj st'), AlarmsClear_ATTITUDE]"
    and f: "filter is_AttitudeActualSet sev = []" "filter is_AttitudeActualSet bev = []"
    and keep: "q st' = q st" "AttitudeActualObj st' = AttitudeActualObj st"
      "lastSysTime st' = lastSysTime st" "alarm_ATTITUDE st' = False"
    by blast
  have "filter is_AttitudeActualSet (new_events st st') = []"
    by (simp add: new_events_append [OF ev] f)
  with keep show ?thesis by simp
qed

text \<open>
  C1 (what the code does).  When both FIFOs deliver samples, the iteration of the task
  loop returns and has taken the fault-free branch: the alarm is cleared.  Yet it has not
  run the filter: the quaternion, the time stamp of \<^verbatim>\<open>updateAttitude\<close> and the
  AttitudeActual object are what they were before the iteration, and the iteration has
  performed no \<^verbatim>\<open>AttitudeActualSet\<close>.
\<close>

theorem cycle_never_updates_attitude:
  assumes "fifo_delivers (PIOS_BMA180_ReadFifo (sensors ce)) k xs" and "xs \<noteq> []"
    and "fifo_delivers (PIOS_MPU6050_ReadFifo (sensors ce)) k' ys" and "ys \<noteq> []"
  shows "\<exists>st'. AttitudeTask_cycle lib ce st = Some st'
    \<and> alarm_ATTITUDE st' = False \<and> q st' = q st \<and> lastSysTime st' = lastSysTime st
    \<and> AttitudeActualObj st' = AttitudeActualObj st
    \<and> filter is_AttitudeActualSet (new_events st st') = []"
proof -
  from cycle_returns [OF assms] obtain st' where c: "AttitudeTask_cycle lib ce st = Some st'"
    by blast
  show ?thesis
    by (rule exI [of _ st'], rule conjI [OF c cycle_keeps_attitude [OF c]])
qed

theorem cycle_never_updates_attitude_witness:
  "fifo_delivers (PIOS_BMA180_ReadFifo (sensors (example_cycle 8000))) 0
      [accel_sample 1 2 (- 3), accel_sample 3 2 (- 5)]
   \<and> fifo_delivers (PIOS_MPU6050_ReadFifo (sensors (example_cycle 8000))) 0 [gyro_sample 0 0 0]
   \<and> (\<exists>st'. AttitudeTask_cycle example_libs (example_cycle 8000) example_state = Some st'
     \<and> alarm_ATTITUDE st' = False
     \<and> q st' = (Fin 1, Fin 0, Fin 0, Fin 0)
     \<and> AttitudeActualObj st' = example_actual
     \<and> filter is_AttitudeActualSet (new_events example_state st') = [])"
proof -
  have da: "fifo_delivers (PIOS_BMA180_ReadFifo (sensors (example_cycle 8000))) 0
      [accel_sample 1 2 (- 3), accel_sample 3 2 (- 5)]"
    by (simp add: example_cycle_def example_sensors_def fifo_script_delivers)
  have dg: "fifo_delivers (PIOS_MPU6050_ReadFifo (sensors (example_cycle 8000))) 0 [gyro_sample 0 0 0]"
    by (simp add: example_cycle_def example_sensors_def fifo_script_delivers)
  have e: "q example_state = (Fin 1, Fin 0, Fin 0, Fin 0)" "AttitudeActualObj example_state = example_actual"
    by (simp_all add: example_state_def AttitudeInitialize_def boot_state_def Let_def example_actual_def)
  from cycle_never_updates_attitude [OF da _ dg, where lib = example_libs and st = example_state]
  have "\<exists>st'. AttitudeTask_cycle example_libs (example_cycle 8000) example_state = Some st'
     \<and> alarm_ATTITUDE st' = False
     \<and> q st' = (Fin 1, Fin 0, Fin 0, Fin 0)
     \<and> AttitudeActualObj st' = example_actual
     \<and> filter is_AttitudeActualSet (new_events example_state st') = []"
    by (auto simp: e)
  with da dg show ?thesis by (intro conjI)
qed

text \<open>
  C2 (what the code does).  If the accelerometer FIFO, or the gyroscope FIFO, never has
  an entry, \<^verbatim>\<open>updateSensors\<close> does not return, and neither does the iteration of the task
  loop that called it: no fault is reported and no alarm is raised.  Whenever
  \<^verbatim>\<open>updateSensors\<close> does return, it returns 0, and an iteration that returns leaves the
  alarm cleared and has not raised it.
\<close>

theorem stalled_fifo_never_faults:
  "((\<forall>i. PIOS_BMA180_ReadFifo (sensors ce) i = None) \<or> (\<forall>i. PIOS_MPU6050_ReadFifo (sensors ce) i = None)
      \<longrightarrow> updateSensors lib (sensors ce) attitudeRaw st = None \<and> AttitudeTask_cycle lib ce st = None)
   \<and> (\<forall>ret a s. updateSensors lib (sensors ce) attitudeRaw st = Some (ret, a, s) \<longrightarrow> ret = 0)
   \<and> (\<forall>st'. AttitudeTask_cycle lib ce st = Some st' \<longrightarrow>
         \<not> alarm_ATTITUDE st' \<and> AlarmsSet_ATTITUDE_ERROR \<notin> set (new_events st st'))"
proof (intro conjI impI allI)
  assume stalled: "(\<forall>i. PIOS_BMA180_ReadFifo (sensors ce) i = None)
      \<or> (\<forall>i. PIOS_MPU6050_ReadFifo (sensors ce) i = None)"
  have hang: "updateSensors lib (sensors ce) a s = None" for a s
  proof (cases "\<forall>i. PIOS_BMA180_ReadFifo (sensors ce) i = None")
    case True
    then have "read_accels (sensors ce) a s' = None" for s'
      by (simp add: read_accels_def wait_sample_stalled)
    then show ?thesis by (simp add: updateSensors_def)
  next
    case False
    with stalled have "\<forall>i. PIOS_MPU6050_ReadFifo (sensors ce) i = None" by blast
    then have "read_gyros (sensors ce) a' s' = None" for a' s'
      by (simp add: read_gyros_def wait_sample_stalled)
    then show ?thesis by (simp add: updateSensors_def split: option.splits)
  qed
  show "updateSensors lib (sensors ce) attitudeRaw st = None" by (rule hang)
  show "AttitudeTask_cycle lib ce st = None"
    by (simp add: AttitudeTask_cycle_def Let_def hang)
next
  fix ret a s
  assume "updateSensors lib (sensors ce) attitudeRaw st = Some (ret, a, s)"
  then show "ret = 0" by (rule updateSensors_returns_0)
next
  fix st'
  assume c: "AttitudeTask_cycle lib ce st = Some st'"
  from cycle_frame [OF c] obtain sev bev where
    ev: "events st' = events st @ sev @ [PIOS_WDG_UpdateFlag, AttitudeRawSet (raw st)] @ bev
                       @ [AttitudeRawSet (AttitudeRawObj st'), AlarmsClear_ATTITUDE]"
    and f: "AlarmsSet_ATTITUDE_ERROR \<notin> set sev" "AlarmsSet_ATTITUDE_ERROR \<notin> set bev"
    and al: "alarm_ATTITUDE st' = False"
    by blast
  show "\<not> alarm_ATTITUDE st'" using al by simp
  show "AlarmsSet_ATTITUDE_ERROR \<notin> set (new_events st st')"
    using f by (simp add: new_events_append [OF ev])
qed

theorem stalled_fifo_never_faults_witness:
  "(\<forall>i. PIOS_BMA180_ReadFifo
          (sensors ((example_cycle 8000)\<lparr>sensors := example_sensors [] [gyro_sample 0 0 0]\<rparr>)) i = None)
   \<and> updateSensors example_libs
        (sensors ((example_cycle 8000)\<lparr>sensors := example_sensors [] [gyro_sample 0 0 0]\<rparr>))
        AttitudeRaw_zero example_state = None
   \<and> AttitudeTask_cycle example_libs
        ((example_cycle 8000)\<lparr>sensors := example_sensors [] [gyro_sample 0 0 0]\<rparr>) example_state = None"
proof -
  let ?ce = "(example_cycle 8000)\<lparr>sensors := example_sensors [] [gyro_sample 0 0 0]\<rparr>"
  have h: "\<forall>i. PIOS_BMA180_ReadFifo (sensors ?ce) i = None"
    by (simp add: example_sensors_def fifo_script_def)
  from stalled_fifo_never_faults [of ?ce example_libs AttitudeRaw_zero example_state] h
  show ?thesis by blast
qed

section \<open>The yaw bias\<close>

lemma yaw_bias_formula:
  assumes us: "updateSensors lib env attitudeRaw st = Some (ret, attitudeRaw', st')"
    and del: "fifo_delivers (PIOS_MPU6050_ReadFifo env) k ys" and ne: "ys \<noteq> []"
  shows "gyro_correct_int st' =
           (fst (gyro_correct_int st), fst (snd (gyro_correct_int st)),
            third (gyro_correct_int st) + - published_gyro_z env ys st * yawBiasRate st)
         \<and> third (gyros attitudeRaw') = published_gyro_z env ys st"
proof -
  let ?st0 = "st\<lparr>accel_accum := (0, 0, 0), gyro_accum := (0, 0, 0),
                  accel_samples := 0, gyro_samples := 0\<rparr>"
  from updateSensors_SomeD [OF us] obtain ar1 s1 ar2 s2 ar3 s3 ar4 s4 where
    ra: "read_accels env attitudeRaw ?st0 = Some (ar1, s1)"
    and rg: "read_gyros env ar1 s1 = Some (ar2, s2)"
    and rt: "read_temperatures ar2 s2 = (ar3, s3)"
    and cb: "correct_bias ar3 s3 = (ar4, s4)"
    and raw': "attitudeRaw' = read_mag env ar4"
    and st': "st' = update_baro lib env
                   (s4\<lparr>AttitudeRawObj := raw s4, events := events s4 @ [AttitudeRawSet (raw s4)]\<rparr>)"
    by blast
  from read_accels_SomeD [OF ra] obtain an a0 a1 a2 a where
    s1: "s1 = ?st0\<lparr>accel := a, accel_accum := (a0, a1, a2), accel_samples := an,
                 scaling := PIOS_BMA180_GetScale env / float_of_uint an\<rparr>"
    by blast
  then have "gyro_accum s1 = (0, 0, 0)" by simp
  from read_gyros_delivers [OF del ne this, of ar1] rg
  have gz: "third (gyros ar2) = raw_gyro_z env ys"
    and s2: "gyro_correct_int s2 = gyro_correct_int st" "yawBiasRate s2 = yawBiasRate st"
      "bias_correct_gyro s2 = bias_correct_gyro st"
    by (auto simp: raw_gyro_z_def s1)
  from read_temperatures_state [OF rt] obtain g' where s3: "s3 = s2\<lparr>gyro := g'\<rparr>" by blast
  from read_temperatures_raw [OF rt] have gz3: "gyros ar3 = gyros ar2" by simp
  have pub: "third (gyros ar4) = published_gyro_z env ys st"
    using correct_bias_raw [OF cb] by (simp add: published_gyro_z_def s3 s2 gz3 gz)
  have s4: "s4 = s3\<lparr>gyro_correct_int :=
             (fst (gyro_correct_int s3), fst (snd (gyro_correct_int s3)),
              third (gyro_correct_int s3) + - third (gyros ar4) * yawBiasRate s3)\<rparr>"
    by (rule correct_bias_state [OF cb])
  from update_baro_state [of lib env "s4\<lparr>AttitudeRawObj := raw s4,
      events := events s4 @ [AttitudeRawSet (raw s4)]\<rparr>"]
  have "gyro_correct_int st' = gyro_correct_int s4"
    unfolding st' by auto
  also have "\<dots> = (fst (gyro_correct_int st), fst (snd (gyro_correct_int st)),
            third (gyro_correct_int st) + - published_gyro_z env ys st * yawBiasRate st)"
    by (subst s4) (simp add: s3 s2 pub)
  finally show ?thesis
    using pub by (simp add: raw' read_mag_raw)
qed

text \<open>
  C5, as amended.  Whenever both FIFOs deliver samples, \<^verbatim>\<open>updateSensors\<close> returns, and only
  the yaw component of the bias integral has changed, by
  \<open>bias_z += - gyro_z_pub * yawBiasRate\<close>, where \<open>gyro_z_pub\<close> is the z rate as the call
  publishes it: the averaged, scaled and negated z reading of this cycle, plus the current
  \<open>bias_z\<close> when \<open>bias_correct_gyro\<close> is set.  The update uses no accelerometer data; it
  does depend on the \<open>bias_correct_gyro\<close> flag.
\<close>

theorem yaw_bias_update:
  assumes "fifo_delivers (PIOS_BMA180_ReadFifo env) k xs" and "xs \<noteq> []"
    and "fifo_delivers (PIOS_MPU6050_ReadFifo env) k' ys" and "ys \<noteq> []"
  shows "\<exists>attitudeRaw' st'.
           updateSensors lib env attitudeRaw st = Some (0, attitudeRaw', st')
         \<and> gyro_correct_int st' =
             (fst (gyro_correct_int st), fst (snd (gyro_correct_int st)),
              third (gyro_correct_int st) + - published_gyro_z env ys st * yawBiasRate st)
         \<and> third (gyros attitudeRaw') = published_gyro_z env ys st"
proof -
  from updateSensors_delivers [OF assms] obtain attitudeRaw' st' where
    us: "updateSensors lib env attitudeRaw st = Some (0, attitudeRaw', st')"
    by blast
  from yaw_bias_formula [OF us assms(3,4)] us show ?thesis
    by blast
qed

lemma example_updateSensors_returns:
  "xs \<noteq> [] \<Longrightarrow> ys \<noteq> [] \<Longrightarrow>
   \<exists>attitudeRaw' st'. updateSensors lib (example_sensors xs ys) attitudeRaw st = Some (0, attitudeRaw', st')"
proof (rule updateSensors_delivers)
  show "fifo_delivers (PIOS_BMA180_ReadFifo (example_sensors xs ys)) 0 xs"
    by (simp add: example_sensors_def fifo_script_delivers)
  show "fifo_delivers (PIOS_MPU6050_ReadFifo (example_sensors xs ys)) 0 ys"
    by (simp add: example_sensors_def fifo_script_delivers)
qed

lemma example_state_fields:
  "gyro_correct_int example_state = (Fin 0, Fin 0, Fin 0)" "bias_correct_gyro example_state"
  "yawBiasRate example_state = Fin 0" "q example_state = (Fin 1, Fin 0, Fin 0, Fin 0)"
  "raw example_state = AttitudeRaw_zero" "init example_state = 0"
  "zero_during_arming example_state = False"
  by (simp_all add: example_state_def AttitudeInitialize_def boot_state_def Let_def)

lemma raw_gyro_z_example:
  "raw_gyro_z (example_sensors xs [gyro_sample 0 0 4, gyro_sample 0 0 6]) [gyro_sample 0 0 4, gyro_sample 0 0 6]
     = Fin (- 5)"
  by (simp add: raw_gyro_z_def example_sensors_def gyro_sample_def float_of_sint_def float_of_uint_def)

theorem yaw_bias_update_witness:
  "fifo_delivers (PIOS_BMA180_ReadFifo
      (example_sensors [accel_sample 0 0 0] [gyro_sample 0 0 4, gyro_sample 0 0 6])) 0
      [accel_sample 0 0 0]
   \<and> fifo_delivers (PIOS_MPU6050_ReadFifo
      (example_sensors [accel_sample 0 0 0] [gyro_sample 0 0 4, gyro_sample 0 0 6])) 0
      [gyro_sample 0 0 4, gyro_sample 0 0 6]
   \<and> (\<exists>attitudeRaw' st'.
     updateSensors example_libs
       (example_sensors [accel_sample 0 0 0] [gyro_sample 0 0 4, gyro_sample 0 0 6]) AttitudeRaw_zero
       (example_state\<lparr>gyro_correct_int := (Fin 0, Fin 0, Fin 1), yawBiasRate := Fin (1 / 2)\<rparr>)
       = Some (0, attitudeRaw', st')
     \<and> gyro_correct_int st' = (Fin 0, Fin 0, Fin 3)
     \<and> third (gyros attitudeRaw') = Fin (- 4))"
proof -
  let ?env = "example_sensors [accel_sample 0 0 0] [gyro_sample 0 0 4, gyro_sample 0 0 6]"
  let ?st = "example_state\<lparr>gyro_correct_int := (Fin 0, Fin 0, Fin 1), yawBiasRate := Fin (1 / 2)\<rparr>"
  have da: "fifo_delivers (PIOS_BMA180_ReadFifo ?env) 0 [accel_sample 0 0 0]"
    by (simp add: example_sensors_def fifo_script_delivers)
  have dg: "fifo_delivers (PIOS_MPU6050_ReadFifo ?env) 0 [gyro_sample 0 0 4, gyro_sample 0 0 6]"
    by (simp add: example_sensors_def fifo_script_delivers)
  have pub: "published_gyro_z ?env [gyro_sample 0 0 4, gyro_sample 0 0 6] ?st = Fin (- 4)"
    by (simp add: published_gyro_z_def raw_gyro_z_example example_state_fields)
  from yaw_bias_update [OF da _ dg, of example_libs AttitudeRaw_zero ?st] da dg show ?thesis
    by (simp add: pub example_state_fields)
qed

text \<open>
  C5 as it is stated fails.  Take \<open>bias_correct_gyro\<close> set (its initial value), a yaw bias
  of 1, a yaw bias rate of 1/2 and a gyroscope at rest (raw z reading 0): the claimed
  update gives a yaw bias of \<open>1 + (- 0) * 1/2 = 1\<close>, the code gives \<open>1/2\<close>.  With the flag
  cleared, on the same input, the code gives 1: the update depends on the flag.
\<close>

theorem yaw_bias_raw_counterexample:
  "yaw_bias_after
     (updateSensors example_libs (example_sensors [accel_sample 0 0 0] [gyro_sample 0 0 0])
        AttitudeRaw_zero
        (example_state\<lparr>gyro_correct_int := (Fin 0, Fin 0, Fin 1), yawBiasRate := Fin (1 / 2)\<rparr>))
     = Some (Fin (1 / 2))
   \<and> claimed_yaw_bias (example_sensors [accel_sample 0 0 0] [gyro_sample 0 0 0]) [gyro_sample 0 0 0]
        (example_state\<lparr>gyro_correct_int := (Fin 0, Fin 0, Fin 1), yawBiasRate := Fin (1 / 2)\<rparr>)
     = Fin 1
   \<and> yaw_bias_after
     (updateSensors example_libs (example_sensors [accel_sample 0 0 0] [gyro_sample 0 0 0])
        AttitudeRaw_zero
        (example_state\<lparr>gyro_correct_int := (Fin 0, Fin 0, Fin 1), yawBiasRate := Fin (1 / 2),
                        bias_correct_gyro := False\<rparr>))
     = Some (Fin 1)"
proof -
  let ?env = "example_sensors [accel_sample 0 0 0] [gyro_sample 0 0 0]"
  let ?st = "example_state\<lparr>gyro_correct_int := (Fin 0, Fin 0, Fin 1), yawBiasRate := Fin (1 / 2)\<rparr>"
  let ?st2 = "example_state\<lparr>gyro_correct_int := (Fin 0, Fin 0, Fin 1), yawBiasRate := Fin (1 / 2),
                        bias_correct_gyro := False\<rparr>"
  obtain attitudeRaw' st' where
    us: "updateSensors example_libs ?env AttitudeRaw_zero ?st = Some (0, attitudeRaw', st')"
    using example_updateSensors_returns [of "[accel_sample 0 0 0]" "[gyro_sample 0 0 0]"]
    by blast
  obtain attitudeRaw2 st2' where
    us2: "updateSensors example_libs ?env AttitudeRaw_zero ?st2 = Some (0, attitudeRaw2, st2')"
    using example_updateSensors_returns [of "[accel_sample 0 0 0]" "[gyro_sample 0 0 0]"]
    by blast
  have del: "fifo_delivers (PIOS_MPU6050_ReadFifo ?env) 0 [gyro_sample 0 0 0]"
    by (simp add: example_sensors_def fifo_script_delivers)
  have rz: "raw_gyro_z ?env [gyro_sample 0 0 0] = Fin 0"
    by (simp add: raw_gyro_z_def example_sensors_def gyro_sample_def float_of_sint_def float_of_uint_def)
  have pub: "published_gyro_z ?env [gyro_sample 0 0 0] ?st = Fin 1"
    by (simp add: published_gyro_z_def rz example_state_fields)
  have pub2: "published_gyro_z ?env [gyro_sample 0 0 0] ?st2 = Fin 0"
    by (simp add: published_gyro_z_def rz)
  from yaw_bias_formula [OF us del] have r1: "third (gyro_correct_int st') = Fin (1 / 2)"
    by (simp add: pub)
  from yaw_bias_formula [OF us2 del] have r2: "third (gyro_correct_int st2') = Fin 1"
    by (simp add: pub2)
  have cl: "claimed_yaw_bias ?env [gyro_sample 0 0 0] ?st = Fin 1"
    by (simp add: claimed_yaw_bias_def rz)
  from r1 r2 cl show ?thesis
    by (simp add: us us2 yaw_bias_after_def)
qed

section \<open>The averaged accelerometer reading\<close>

lemma sint_scast_16_32: "sint (scast (w :: 16 word) :: 32 word) = sint w"
  by (rule sint_up_scast) (simp add: is_up)

lemma sum32_exact:
  "length xs \<le> 65535 \<Longrightarrow>
     sint (sum_list (map (\<lambda>s. scast (f s) :: 32 word) xs)) = axis_sum f xs
     \<and> \<bar>axis_sum f xs\<bar> \<le> 32768 * int (length xs)"
proof (induction xs)
  case Nil
  then show ?case by (simp add: axis_sum_def)
next
  case (Cons x xs)
  let ?S = "sum_list (map (\<lambda>s. scast (f s) :: 32 word) xs)"
  from Cons have IH: "sint ?S = axis_sum f xs" "\<bar>axis_sum f xs\<bar> \<le> 32768 * int (length xs)"
    by simp_all
  have len: "int (length xs) \<le> 65534" using Cons.prems by simp
  have x: "- 32768 \<le> sint (f x)" "sint (f x) < 32768"
    using sint_ge [of "f x"] sint_lt [of "f x"] by simp_all
  have bound: "\<bar>sint (f x) + axis_sum f xs\<bar> \<le> 32768 * int (length (x # xs))"
    using x IH(2) by simp
  then have "\<bar>sint (f x) + axis_sum f xs\<bar> \<le> 32768 * 65535"
    using len by simp
  then have range: "- (2 ^ 31) \<le> sint (f x) + axis_sum f xs" "sint (f x) + axis_sum f xs < 2 ^ 31"
    by simp_all
  have "sint (scast (f x) + ?S) = signed_take_bit 31 (sint (scast (f x) :: 32 word) + sint ?S)"
    by (simp add: sint_word_add)
  also have "\<dots> = signed_take_bit 31 (sint (f x) + axis_sum f xs)"
    by (simp only: sint_scast_16_32 IH(1))
  also have "\<dots> = sint (f x) + axis_sum f xs"
    using range by (rule signed_take_bit_int_eq_self)
  finally have "sint (sum_list (map (\<lambda>s. scast (f s) :: 32 word) (x # xs))) = axis_sum f (x # xs)"
    by (simp add: axis_sum_def)
  moreover have "axis_sum f (x # xs) = sint (f x) + axis_sum f xs"
    by (simp add: axis_sum_def)
  ultimately show ?case using bound by simp
qed

lemma float_of_uint_of_nat:
  "N < 2 ^ 32 \<Longrightarrow> float_of_uint (of_nat N :: 32 word) = Fin (real N)"
proof -
  assume "N < 2 ^ 32"
  then have "unat (of_nat N :: 32 word) = N"
    by (simp add: unat_of_nat)
  then show ?thesis
    unfolding float_of_uint_def by (simp only:)
qed

lemma mean_reading_eq:
  assumes "0 < N"
  shows "Fin (real_of_int S) * (scale / Fin (real N)) = mean_reading S N scale"
proof (cases scale)
  case (Fin s)
  with assms show ?thesis by (simp add: mean_reading_def)
next
  case PInf
  with assms show ?thesis
    by (simp add: mean_reading_def divide_c_float_def times_c_float_def zero_less_divide_iff)
next
  case NInf
  with assms show ?thesis
    by (simp add: mean_reading_def divide_c_float_def times_c_float_def zero_less_divide_iff)
next
  case NaN
  then show ?thesis by (simp add: mean_reading_def)
qed

lemma mean_reading_word:
  "0 < N \<Longrightarrow> float_of_sint w * (scale / Fin (real N)) = mean_reading (sint w) N scale"
  unfolding float_of_sint_def by (rule mean_reading_eq)

lemma accels_formula:
  assumes c: "AttitudeTask_cycle lib ce st = Some st'"
    and del: "fifo_delivers (PIOS_BMA180_ReadFifo (sensors ce)) k xs" and ne: "xs \<noteq> []"
    and len: "length xs < 2 ^ 32"
  shows "accel_samples st' = of_nat (length xs)
    \<and> accel_accum st' = (sum_list (map (\<lambda>s. scast (accel_x s)) xs),
                         sum_list (map (\<lambda>s. scast (accel_y s)) xs),
                         sum_list (map (\<lambda>s. scast (accel_z s)) xs))
    \<and> accels (AttitudeRawObj st') =
        (mean_reading (sint (fst (accel_accum st'))) (length xs) (PIOS_BMA180_GetScale (sensors ce)),
         mean_reading (sint (fst (snd (accel_accum st')))) (length xs) (PIOS_BMA180_GetScale (sensors ce)),
         mean_reading (sint (third (accel_accum st'))) (length xs) (PIOS_BMA180_GetScale (sensors ce)))"
proof -
  let ?env = "sensors ce"
  from cycle_effect [OF c] obtain s1 s3 attitudeRaw' where
    us: "updateSensors lib ?env (AttitudeRawObj s1) s1 = Some (0, attitudeRaw', s3)"
    and st': "st' = s3\<lparr>AttitudeRawObj := attitudeRaw', alarm_ATTITUDE := False,
                 events := events s3 @ [AttitudeRawSet attitudeRaw', AlarmsClear_ATTITUDE]\<rparr>"
    by blast
  let ?st0 = "s1\<lparr>accel_accum := (0, 0, 0), gyro_accum := (0, 0, 0),
                  accel_samples := 0, gyro_samples := 0\<rparr>"
  from updateSensors_SomeD [OF us] obtain ar1 t1 ar2 t2 ar3 t3 ar4 t4 where
    ra: "read_accels ?env (AttitudeRawObj s1) ?st0 = Some (ar1, t1)"
    and rg: "read_gyros ?env ar1 t1 = Some (ar2, t2)"
    and rt: "read_temperatures ar2 t2 = (ar3, t3)"
    and cb: "correct_bias ar3 t3 = (ar4, t4)"
    and raw': "attitudeRaw' = read_mag ?env ar4"
    and s3: "s3 = update_baro lib ?env
                   (t4\<lparr>AttitudeRawObj := raw t4, events := events t4 @ [AttitudeRawSet (raw t4)]\<rparr>)"
    by blast
  have "accel_accum ?st0 = (0, 0, 0)" by simp
  from read_accels_delivers [OF del ne this, of "AttitudeRawObj s1"] ra
  have acc1: "accels ar1 =
       (float_of_sint (sum_list (map (\<lambda>s. scast (accel_x s) :: 32 word) xs))
          * (PIOS_BMA180_GetScale ?env / float_of_uint (of_nat (length xs) :: 32 word)),
        float_of_sint (sum_list (map (\<lambda>s. scast (accel_y s) :: 32 word) xs))
          * (PIOS_BMA180_GetScale ?env / float_of_uint (of_nat (length xs) :: 32 word)),
        float_of_sint (sum_list (map (\<lambda>s. scast (accel_z s) :: 32 word) xs))
          * (PIOS_BMA180_GetScale ?env / float_of_uint (of_nat (length xs) :: 32 word)))"
    and t1: "accel_accum t1 = (sum_list (map (\<lambda>s. scast (accel_x s)) xs),
                              sum_list (map (\<lambda>s. scast (accel_y s)) xs),
                              sum_list (map (\<lambda>s. scast (accel_z s)) xs))"
      "accel_samples t1 = of_nat (length xs)"
    by auto
  from read_gyros_SomeD [OF rg] have t2: "accel_accum t2 = accel_accum t1"
    "accel_samples t2 = accel_samples t1" and ar2: "accels ar2 = accels ar1"
    by auto
  from read_temperatures_state [OF rt] have t3: "accel_accum t3 = accel_accum t2"
    "accel_samples t3 = accel_samples t2"
    by auto
  from correct_bias_state [OF cb] have t4: "accel_accum t4 = accel_accum t3"
    "accel_samples t4 = accel_samples t3"
    by (metis (no_types, lifting) attitude_state.select_convs attitude_state.surjective
        attitude_state.update_convs(1))+
  from update_baro_state [of lib ?env "t4\<lparr>AttitudeRawObj := raw t4,
      events := events t4 @ [AttitudeRawSet (raw t4)]\<rparr>"]
  have s3f: "accel_accum s3 = accel_accum t4" "accel_samples s3 = accel_samples t4"
    unfolding s3 by auto
  have accels': "accels attitudeRaw' = accels ar1"
    using read_temperatures_raw [OF rt] correct_bias_raw [OF cb]
    by (simp add: raw' read_mag_raw ar2)
  have n: "accel_samples st' = of_nat (length xs)"
    and a: "accel_accum st' = (sum_list (map (\<lambda>s. scast (accel_x s)) xs),
                         sum_list (map (\<lambda>s. scast (accel_y s)) xs),
                         sum_list (map (\<lambda>s. scast (accel_z s)) xs))"
    unfolding st' by (simp_all add: s3f t4 t3 t2 t1)
  have pos: "0 < length xs" using ne by simp
  have "accels (AttitudeRawObj st') = accels ar1"
    unfolding st' by (simp add: accels')
  also have "\<dots> =
        (mean_reading (sint (fst (accel_accum st'))) (length xs) (PIOS_BMA180_GetScale ?env),
         mean_reading (sint (fst (snd (accel_accum st')))) (length xs) (PIOS_BMA180_GetScale ?env),
         mean_reading (sint (third (accel_accum st'))) (length xs) (PIOS_BMA180_GetScale ?env))"
    unfolding acc1 a
    by (simp add: float_of_uint_of_nat [OF len] mean_reading_word [OF pos])
  finally show ?thesis using n a by simp
qed

text \<open>
  C8.  Let the accelerometer drain of a loop iteration deliver the \<open>N \<ge> 1\<close> samples \<open>xs\<close>
  (after any number of empty polls), and let the gyroscope deliver samples too.  Then the
  iteration returns; the 32-bit counter holds \<open>N\<close> and the accumulators the sums of the
  samples; and the accelerometer reading the iteration publishes is, on each axis,
  \<open>(S / N) * scale\<close>, with \<open>S\<close> the accumulated sum of that axis and \<open>scale\<close> the value of
  \<^verbatim>\<open>PIOS_BMA180_GetScale\<close>.  For up to 65535 samples the accumulators cannot wrap, and \<open>S\<close>
  is the exact sum of the samples.
\<close>

theorem sensor_averaging:
  assumes "fifo_delivers (PIOS_BMA180_ReadFifo (sensors ce)) k xs" and "xs \<noteq> []"
    and "fifo_delivers (PIOS_MPU6050_ReadFifo (sensors ce)) k' ys" and "ys \<noteq> []"
    and "length xs < 2 ^ 32"
  shows "\<exists>st'. AttitudeTask_cycle lib ce st = Some st'
    \<and> accel_samples st' = of_nat (length xs)
    \<and> accels (AttitudeRawObj st') =
        (mean_reading (sint (fst (accel_accum st'))) (length xs) (PIOS_BMA180_GetScale (sensors ce)),
         mean_reading (sint (fst (snd (accel_accum st')))) (length xs) (PIOS_BMA180_GetScale (sensors ce)),
         mean_reading (sint (third (accel_accum st'))) (length xs) (PIOS_BMA180_GetScale (sensors ce)))
    \<and> (length xs \<le> 65535 \<longrightarrow>
         sint (fst (accel_accum st')) = axis_sum accel_x xs
         \<and> sint (fst (snd (accel_accum st'))) = axis_sum accel_y xs
         \<and> sint (third (accel_accum st')) = axis_sum accel_z xs)"
proof -
  from cycle_returns [OF assms(1-4)] obtain st' where c: "AttitudeTask_cycle lib ce st = Some st'"
    by blast
  note f = accels_formula [OF c assms(1,2,5)]
  have "length xs \<le> 65535 \<longrightarrow>
         sint (fst (accel_accum st')) = axis_sum accel_x xs
         \<and> sint (fst (snd (accel_accum st'))) = axis_sum accel_y xs
         \<and> sint (third (accel_accum st')) = axis_sum accel_z xs"
    using f sum32_exact [of xs accel_x] sum32_exact [of xs accel_y] sum32_exact [of xs accel_z]
    by simp
  with f c show ?thesis by blast
qed

theorem sensor_averaging_witness:
  "fifo_delivers (PIOS_BMA180_ReadFifo (sensors (example_cycle 8000))) 0
      [accel_sample 1 2 (- 3), accel_sample 3 2 (- 5)]
   \<and> fifo_delivers (PIOS_MPU6050_ReadFifo (sensors (example_cycle 8000))) 0 [gyro_sample 0 0 0]
   \<and> (\<exists>st'. AttitudeTask_cycle example_libs (example_cycle 8000) example_state = Some st'
     \<and> accel_samples st' = 2
     \<and> sint (fst (accel_accum st')) = 4 \<and> sint (fst (snd (accel_accum st'))) = 4
     \<and> sint (third (accel_accum st')) = - 8
     \<and> accels (AttitudeRawObj st') = (Fin 4, Fin 4, Fin (- 8)))"
proof -
  let ?xs = "[accel_sample 1 2 (- 3), accel_sample 3 2 (- 5)]"
  have da: "fifo_delivers (PIOS_BMA180_ReadFifo (sensors (example_cycle 8000))) 0 ?xs"
    by (simp add: example_cycle_def example_sensors_def fifo_script_delivers)
  have dg: "fifo_delivers (PIOS_MPU6050_ReadFifo (sensors (example_cycle 8000))) 0 [gyro_sample 0 0 0]"
    by (simp add: example_cycle_def example_sensors_def fifo_script_delivers)
  have sc: "PIOS_BMA180_GetScale (sensors (example_cycle 8000)) = Fin 2"
    by (simp add: example_cycle_def example_sensors_def)
  have sums: "axis_sum accel_x ?xs = 4" "axis_sum accel_y ?xs = 4" "axis_sum accel_z ?xs = - 8"
    by (simp_all add: axis_sum_def accel_sample_def)
  from sensor_averaging [OF da _ dg, of example_libs example_state]
  obtain st' where c: "AttitudeTask_cycle example_libs (example_cycle 8000) example_state = Some st'"
    and n: "accel_samples st' = of_nat (length ?xs)"
    and acc: "accels (AttitudeRawObj st') =
        (mean_reading (sint (fst (accel_accum st'))) (length ?xs) (PIOS_BMA180_GetScale (sensors (example_cycle 8000))),
         mean_reading (sint (fst (snd (accel_accum st')))) (length ?xs) (PIOS_BMA180_GetScale (sensors (example_cycle 8000))),
         mean_reading (sint (third (accel_accum st'))) (length ?xs) (PIOS_BMA180_GetScale (sensors (example_cycle 8000))))"
    and ex: "length ?xs \<le> 65535 \<longrightarrow>
         sint (fst (accel_accum st')) = axis_sum accel_x ?xs
         \<and> sint (fst (snd (accel_accum st'))) = axis_sum accel_y ?xs
         \<and> sint (third (accel_accum st')) = axis_sum accel_z ?xs"
    by auto
  have sx: "sint (fst (accel_accum st')) = 4" "sint (fst (snd (accel_accum st'))) = 4"
    "sint (third (accel_accum st')) = - 8"
    using ex sums by simp_all
  have "accels (AttitudeRawObj st') = (Fin 4, Fin 4, Fin (- 8))"
    by (simp only: acc sx sc) (simp add: mean_reading_def)
  with c n sx have "AttitudeTask_cycle example_libs (example_cycle 8000) example_state = Some st'
     \<and> accel_samples st' = 2
     \<and> sint (fst (accel_accum st')) = 4 \<and> sint (fst (snd (accel_accum st'))) = 4
     \<and> sint (third (accel_accum st')) = - 8
     \<and> accels (AttitudeRawObj st') = (Fin 4, Fin 4, Fin (- 8))"
    by simp
  then have "\<exists>st'. AttitudeTask_cycle example_libs (example_cycle 8000) example_state = Some st'
     \<and> accel_samples st' = 2
     \<and> sint (fst (accel_accum st')) = 4 \<and> sint (fst (snd (accel_accum st'))) = 4
     \<and> sint (third (accel_accum st')) = - 8
     \<and> accels (AttitudeRawObj st') = (Fin 4, Fin 4, Fin (- 8))"
    by (rule exI)
  with da dg show ?thesis by (intro conjI)
qed

section \<open>The variable \<open>raw\<close>\<close>

lemma raw_settingsUpdatedCb: "raw (settingsUpdatedCb lib s st) = raw st"
  by (simp add: settingsUpdatedCb_def Let_def split: prod.splits)

lemma raw_AttitudeTask_start: "raw (AttitudeTask_start lib s st) = raw st"
  by (simp add: AttitudeTask_start_def Let_def raw_settingsUpdatedCb)

lemma raw_AttitudeInitialize: "raw (AttitudeInitialize st) = raw st"
  by (simp add: AttitudeInitialize_def Let_def)

lemma raw_updateAttitude: "raw (updateAttitude lib cfg t attitudeRaw st) = raw st"
  by (simp add: updateAttitude_def Let_def)

lemma raw_cycle:
  assumes "AttitudeTask_cycle lib ce st = Some st'"
  shows "raw st' = raw st"
proof -
  from cycle_frame [OF assms] obtain sev bev where "raw st' = raw st" by blast
  then show ?thesis .
qed

lemma raw_run: "run lib steps st = Some st' \<Longrightarrow> raw st' = raw st"
proof (induction steps arbitrary: st)
  case Nil
  then show ?case by simp
next
  case (Cons x steps)
  show ?case
  proof (cases x)
    case (Cycle ce)
    with Cons.prems obtain s1 where c: "AttitudeTask_cycle lib ce st = Some s1"
      and r: "run lib steps s1 = Some st'"
      by (auto split: option.splits)
    from Cons.IH [OF r] raw_cycle [OF c] show ?thesis by simp
  next
    case (SettingsUpdated s)
    with Cons.prems have "run lib steps (settingsUpdatedCb lib s st) = Some st'" by simp
    from Cons.IH [OF this] show ?thesis by (simp add: raw_settingsUpdatedCb)
  qed
qed

lemma raw_reachable:
  assumes "AttitudeTask lib settings steps (AttitudeInitialize (boot_state r a b)) = Some st"
  shows "raw st = AttitudeRaw_zero"
proof -
  from assms have "raw st = raw (AttitudeTask_start lib settings (AttitudeInitialize (boot_state r a b)))"
    unfolding AttitudeTask_def by (rule raw_run)
  then show ?thesis
    by (simp add: raw_AttitudeTask_start raw_AttitudeInitialize boot_state_def)
qed

lemma updateSensors_publishes_raw:
  assumes "updateSensors lib env attitudeRaw st = Some (ret, attitudeRaw', st')"
  shows "filter is_AttitudeRawSet (new_events st st') = [AttitudeRawSet (raw st)]
    \<and> AttitudeRawObj st' = raw st \<and> raw st' = raw st"
proof -
  from updateSensors_effect [OF assms] obtain a aa an g ga gn sc gci n b bev where
    st': "st' = st\<lparr>accel := a, accel_accum := aa, accel_samples := an,
              gyro := g, gyro_accum := ga, gyro_samples := gn, scaling := sc,
              gyro_correct_int := gci, baro_conversions := n, BaroAltitudeObj := b,
              AttitudeRawObj := raw st,
              events := events st @ AttitudeRawSet (raw st) # bev\<rparr>"
    and bev: "filter is_AttitudeRawSet bev = []"
    by blast
  have "events st' = events st @ AttitudeRawSet (raw st) # bev"
    by (subst st') simp
  then have "new_events st st' = AttitudeRawSet (raw st) # bev"
    by (rule new_events_append)
  moreover have "AttitudeRawObj st' = raw st" "raw st' = raw st"
    by (subst st', simp)+
  ultimately show ?thesis using bev by simp
qed

lemma cycle_publishes_raw:
  assumes "AttitudeTask_cycle lib ce st = Some st'"
  shows "filter is_AttitudeRawSet (new_events st st')
           = [AttitudeRawSet (raw st), AttitudeRawSet (AttitudeRawObj st')]"
proof -
  from cycle_frame [OF assms] obtain sev bev where
    ev: "events st' = events st @ sev @ [PIOS_WDG_UpdateFlag, AttitudeRawSet (raw st)] @ bev
                       @ [AttitudeRawSet (AttitudeRawObj st'), AlarmsClear_ATTITUDE]"
    and f: "filter is_AttitudeRawSet sev = []" "filter is_AttitudeRawSet bev = []"
    by blast
  show ?thesis
    by (simp add: new_events_append [OF ev] f)
qed

text \<open>
  C9.  Take any state the task can be in: the program's initial state, then
  \<^verbatim>\<open>AttitudeInitialize\<close>, the start of \<^verbatim>\<open>AttitudeTask\<close>, and any number of loop iterations
  and settings updates.  In it the variable \<open>raw\<close> is the zero-initialised record it was
  at program start (nothing writes it; \<^verbatim>\<open>updateAttitude\<close> does not either).  When both
  FIFOs deliver samples, a call of \<^verbatim>\<open>updateSensors\<close> returns and has performed exactly one
  \<^verbatim>\<open>AttitudeRawSet\<close>, of that zero record whatever the sensors delivered, which it leaves
  in the object.  A loop iteration then publishes twice: first the zero record, then the
  record \<^verbatim>\<open>updateSensors\<close> populated, which is the one that stays in the object.
\<close>

theorem raw_publication:
  assumes "AttitudeTask lib settings steps (AttitudeInitialize (boot_state r a b)) = Some st"
    and "fifo_delivers (PIOS_BMA180_ReadFifo (sensors ce)) k xs" and "xs \<noteq> []"
    and "fifo_delivers (PIOS_MPU6050_ReadFifo (sensors ce)) k' ys" and "ys \<noteq> []"
  shows "raw st = AttitudeRaw_zero
    \<and> (\<exists>attitudeRaw' s'.
          updateSensors lib (sensors ce) attitudeRaw st = Some (0, attitudeRaw', s')
          \<and> filter is_AttitudeRawSet (new_events st s') = [AttitudeRawSet AttitudeRaw_zero]
          \<and> AttitudeRawObj s' = AttitudeRaw_zero \<and> raw s' = AttitudeRaw_zero)
    \<and> (\<exists>st'. AttitudeTask_cycle lib ce st = Some st'
          \<and> filter is_AttitudeRawSet (new_events st st')
               = [AttitudeRawSet AttitudeRaw_zero, AttitudeRawSet (AttitudeRawObj st')]
          \<and> raw st' = AttitudeRaw_zero)
    \<and> (\<forall>cfg t attitudeRaw. raw (updateAttitude lib cfg t attitudeRaw st) = AttitudeRaw_zero)"
proof (intro conjI allI)
  show z: "raw st = AttitudeRaw_zero" using assms(1) by (rule raw_reachable)
  from updateSensors_delivers [OF assms(2-5)] obtain attitudeRaw' s' where
    us: "updateSensors lib (sensors ce) attitudeRaw st = Some (0, attitudeRaw', s')"
    by blast
  from updateSensors_publishes_raw [OF us] z us
  show "\<exists>attitudeRaw' s'.
          updateSensors lib (sensors ce) attitudeRaw st = Some (0, attitudeRaw', s')
          \<and> filter is_AttitudeRawSet (new_events st s') = [AttitudeRawSet AttitudeRaw_zero]
          \<and> AttitudeRawObj s' = AttitudeRaw_zero \<and> raw s' = AttitudeRaw_zero"
    by auto
  from cycle_returns [OF assms(2-5)] obtain st' where c: "AttitudeTask_cycle lib ce st = Some st'"
    by blast
  from cycle_publishes_raw [OF c] raw_cycle [OF c] z c
  show "\<exists>st'. AttitudeTask_cycle lib ce st = Some st'
          \<and> filter is_AttitudeRawSet (new_events st st')
               = [AttitudeRawSet AttitudeRaw_zero, AttitudeRawSet (AttitudeRawObj st')]
          \<and> raw st' = AttitudeRaw_zero"
    by auto
  fix cfg t attitudeRaw'
  show "raw (updateAttitude lib cfg t attitudeRaw' st) = AttitudeRaw_zero"
    by (simp add: raw_updateAttitude z)
qed

theorem raw_publication_witness:
  "fifo_delivers (PIOS_BMA180_ReadFifo (sensors (example_cycle 8000))) 0
      [accel_sample 1 2 (- 3), accel_sample 3 2 (- 5)]
   \<and> fifo_delivers (PIOS_MPU6050_ReadFifo (sensors (example_cycle 8000))) 0 [gyro_sample 0 0 0]
   \<and> (\<exists>st st'.
     AttitudeTask example_libs example_settings
       [Cycle (example_cycle 500), SettingsUpdated example_settings]
       (AttitudeInitialize (boot_state AttitudeRaw_zero example_actual example_baro)) = Some st
     \<and> raw st = AttitudeRaw_zero
     \<and> AttitudeTask_cycle example_libs (example_cycle 8000) st = Some st'
     \<and> filter is_AttitudeRawSet (new_events st st')
          = [AttitudeRawSet AttitudeRaw_zero, AttitudeRawSet (AttitudeRawObj st')]
     \<and> accels (AttitudeRawObj st') = (Fin 4, Fin 4, Fin (- 8)))"
proof -
  let ?s0 = "AttitudeTask_start example_libs example_settings
               (AttitudeInitialize (boot_state AttitudeRaw_zero example_actual example_baro))"
  obtain s1 where c1: "AttitudeTask_cycle example_libs (example_cycle 500) ?s0 = Some s1"
    using example_cycle_returns by blast
  define st where "st = settingsUpdatedCb example_libs example_settings s1"
  have reach: "AttitudeTask example_libs example_settings
       [Cycle (example_cycle 500), SettingsUpdated example_settings]
       (AttitudeInitialize (boot_state AttitudeRaw_zero example_actual example_baro)) = Some st"
    by (simp add: AttitudeTask_def c1 st_def)
  have da: "fifo_delivers (PIOS_BMA180_ReadFifo (sensors (example_cycle 8000))) 0
      [accel_sample 1 2 (- 3), accel_sample 3 2 (- 5)]"
    by (simp add: example_cycle_def example_sensors_def fifo_script_delivers)
  have dg: "fifo_delivers (PIOS_MPU6050_ReadFifo (sensors (example_cycle 8000))) 0 [gyro_sample 0 0 0]"
    by (simp add: example_cycle_def example_sensors_def fifo_script_delivers)
  note rp = raw_publication [OF reach da _ dg, of AttitudeRaw_zero]
  have z: "raw st = AttitudeRaw_zero" using rp by simp
  from rp obtain st' where c: "AttitudeTask_cycle example_libs (example_cycle 8000) st = Some st'"
    and f: "filter is_AttitudeRawSet (new_events st st')
          = [AttitudeRawSet AttitudeRaw_zero, AttitudeRawSet (AttitudeRawObj st')]"
    by auto
  have sc: "PIOS_BMA180_GetScale (sensors (example_cycle 8000)) = Fin 2"
    by (simp add: example_cycle_def example_sensors_def)
  have acc: "accels (AttitudeRawObj st') = (Fin 4, Fin 4, Fin (- 8))"
    using accels_formula [OF c da] by (simp add: accel_sample_def sc mean_reading_def)
  have "AttitudeTask example_libs example_settings
       [Cycle (example_cycle 500), SettingsUpdated example_settings]
       (AttitudeInitialize (boot_state AttitudeRaw_zero example_actual example_baro)) = Some st
     \<and> raw st = AttitudeRaw_zero
     \<and> AttitudeTask_cycle example_libs (example_cycle 8000) st = Some st'
     \<and> filter is_AttitudeRawSet (new_events st st')
          = [AttitudeRawSet AttitudeRaw_zero, AttitudeRawSet (AttitudeRawObj st')]
     \<and> accels (AttitudeRawObj st') = (Fin 4, Fin 4, Fin (- 8))"
    using reach z c f acc by simp
  then have "\<exists>st st'.
     AttitudeTask example_libs example_settings
       [Cycle (example_cycle 500), SettingsUpdated example_settings]
       (AttitudeInitialize (boot_state AttitudeRaw_zero example_actual example_baro)) = Some st
     \<and> raw st = AttitudeRaw_zero
     \<and> AttitudeTask_cycle example_libs (example_cycle 8000) st = Some st'
     \<and> filter is_AttitudeRawSet (new_events st st')
          = [AttitudeRawSet AttitudeRaw_zero, AttitudeRawSet (AttitudeRawObj st')]
     \<and> accels (AttitudeRawObj st') = (Fin 4, Fin 4, Fin (- 8))"
    by (intro exI)
  with da dg show ?thesis by (intro conjI)
qed

section \<open>The gain scheduler\<close>

lemma steady_after_window:
  "7000 \<le> xTaskGetTickCount_first ce \<Longrightarrow> Armed (FlightStatusGet ce) \<noteq> ARMING \<Longrightarrow> steady ce st"
  by (simp add: steady_def startup_window_def arming_zero_def not_less)

lemma startup_window_tick:
  "xTaskGetTickCount_first ce = t \<Longrightarrow> xTaskGetTickCount_second ce = t \<Longrightarrow>
     startup_window ce = (1000 < t \<and> t < 7000)"
  by (auto simp: startup_window_def)

lemma steady_same_flag:
  "zero_during_arming s' = zero_during_arming s \<Longrightarrow> steady ce s' = steady ce s"
  by (simp add: steady_def arming_zero_def)

lemma schedule_gains_events:
  "events (schedule_gains ce st) =
     events st @ (if steady ce st \<and> init st = 0
                  then [AttitudeSettingsAccelKiGet, AttitudeSettingsAccelKpGet,
                        AttitudeSettingsYawBiasRateGet]
                  else [])"
  by (simp add: schedule_gains_cases steady_def)

lemma cycle_settings_reads:
  assumes "AttitudeTask_cycle lib ce st = Some st'"
  shows "filter is_settings_read (new_events st st') =
     (if steady ce st \<and> init st = 0
      then [AttitudeSettingsAccelKiGet, AttitudeSettingsAccelKpGet, AttitudeSettingsYawBiasRateGet]
      else [])"
proof -
  from cycle_frame [OF assms] obtain sev bev where
    sg: "events (schedule_gains ce st) = events st @ sev"
    and ev: "events st' = events st @ sev @ [PIOS_WDG_UpdateFlag, AttitudeRawSet (raw st)] @ bev
                       @ [AttitudeRawSet (AttitudeRawObj st'), AlarmsClear_ATTITUDE]"
    and f: "filter is_settings_read bev = []"
    by blast
  from sg have sev: "sev = (if steady ce st \<and> init st = 0
      then [AttitudeSettingsAccelKiGet, AttitudeSettingsAccelKpGet, AttitudeSettingsYawBiasRateGet]
      else [])"
    by (simp add: schedule_gains_events)
  show ?thesis
    unfolding new_events_append [OF ev] by (simp add: f sev)
qed

lemma cycle_gains:
  assumes "AttitudeTask_cycle lib ce st = Some st'"
  shows "(startup_window ce \<or> arming_zero ce st \<longrightarrow>
            gains st' = (Fin 1, Fin (9 / 10), Fin (23 / 100)) \<and> init st' = 0)
    \<and> (steady ce st \<and> init st = 0 \<longrightarrow>
            gains st' = settings_gains (AttitudeSettingsGet ce) \<and> init st' = 1)
    \<and> (steady ce st \<and> init st \<noteq> 0 \<longrightarrow> gains st' = gains st \<and> init st' = init st)"
proof -
  from cycle_frame [OF assms] obtain sev bev where
    "gains st' = gains (schedule_gains ce st)" "init st' = init (schedule_gains ce st)"
    by blast
  then show ?thesis
    by (simp add: schedule_gains_cases steady_def gains_def settings_gains_def)
qed

lemma new_events_trans:
  assumes "events s1 = events s0 @ es1" and "events s2 = events s1 @ es2"
  shows "new_events s0 s2 = es1 @ es2"
  using assms by (simp add: new_events_def)

lemma cycle_events_extend:
  assumes "AttitudeTask_cycle lib ce st = Some st'"
  shows "events st' = events st @ new_events st st'"
proof -
  from cycle_frame [OF assms] obtain es where "events st' = events st @ es" by blast
  then show ?thesis by (simp add: new_events_def)
qed

text \<open>Iterations in the steady regime, once the settings are loaded: the gains stay and
  no settings are read.\<close>

lemma steady_run:
  assumes "run lib (map Cycle ces) s = Some s'" and "init s \<noteq> 0" and "all_steady ces s"
  shows "gains s' = gains s \<and> init s' = init s
    \<and> (\<exists>es. events s' = events s @ es \<and> filter is_settings_read es = [])"
  using assms
proof (induction ces arbitrary: s)
  case Nil
  then show ?case by simp
next
  case (Cons ce ces)
  from Cons.prems(1) obtain s1 where c: "AttitudeTask_cycle lib ce s = Some s1"
    and r: "run lib (map Cycle ces) s1 = Some s'"
    by (auto split: option.splits)
  have st: "steady ce s" and rest: "all_steady ces s"
    using Cons.prems(3) by (simp_all add: all_steady_def)
  from cycle_gains [OF c] st Cons.prems(2) have g1: "gains s1 = gains s" "init s1 = init s"
    by simp_all
  from cycle_frame [OF c] obtain sev bev where
    "zero_during_arming s1 = zero_during_arming s" by blast
  then have "steady c s1 = steady c s" for c
    by (rule steady_same_flag)
  then have rest1: "all_steady ces s1"
    using rest by (simp add: all_steady_def)
  have i1: "init s1 \<noteq> 0" using g1 Cons.prems(2) by simp
  from Cons.IH [OF r i1 rest1] obtain es where
    g2: "gains s' = gains s1" "init s' = init s1"
    and es: "events s' = events s1 @ es" "filter is_settings_read es = []"
    by blast
  have e1: "events s1 = events s @ new_events s s1" by (rule cycle_events_extend [OF c])
  have f1: "filter is_settings_read (new_events s s1) = []"
    using cycle_settings_reads [OF c] Cons.prems(2) by simp
  have "events s' = events s @ (new_events s s1 @ es)"
    using e1 es(1) by simp
  moreover have "filter is_settings_read (new_events s s1 @ es) = []"
    using f1 es(2) by simp
  ultimately have "\<exists>es'. events s' = events s @ es' \<and> filter is_settings_read es' = []"
    by (intro exI conjI)
  moreover have "gains s' = gains s" "init s' = init s"
    using g1 g2 by simp_all
  ultimately show ?case by (intro conjI)
qed

lemma cycle_schedule:
  assumes "AttitudeTask_cycle lib ce st = Some st'"
  shows "(startup_window ce \<or> arming_zero ce st \<longrightarrow>
            gains st' = (Fin 1, Fin (9 / 10), Fin (23 / 100)) \<and> init st' = 0
            \<and> filter is_settings_read (new_events st st') = [])
    \<and> (steady ce st \<and> init st = 0 \<longrightarrow>
            gains st' = settings_gains (AttitudeSettingsGet ce) \<and> init st' = 1
            \<and> filter is_settings_read (new_events st st') =
                [AttitudeSettingsAccelKiGet, AttitudeSettingsAccelKpGet, AttitudeSettingsYawBiasRateGet])
    \<and> (steady ce st \<and> init st \<noteq> 0 \<longrightarrow>
            gains st' = gains st \<and> init st' = init st
            \<and> filter is_settings_read (new_events st st') = [])
    \<and> (\<forall>ces st''. steady ce st \<and> init st = 0 \<and> all_steady ces st
            \<and> run lib (map Cycle ces) st' = Some st'' \<longrightarrow>
            gains st'' = settings_gains (AttitudeSettingsGet ce)
            \<and> filter is_settings_read (new_events st st'') =
                [AttitudeSettingsAccelKiGet, AttitudeSettingsAccelKpGet, AttitudeSettingsYawBiasRateGet])"
proof (intro conjI allI impI)
  note g = cycle_gains [OF assms] and r = cycle_settings_reads [OF assms]
  {
    assume h: "startup_window ce \<or> arming_zero ce st"
    then have ns: "\<not> steady ce st" by (simp add: steady_def)
    from g h show "gains st' = (Fin 1, Fin (9 / 10), Fin (23 / 100))" and "init st' = 0"
      by simp_all
    from r ns show "filter is_settings_read (new_events st st') = []" by simp
  next
    assume h: "steady ce st \<and> init st = 0"
    from g h show "gains st' = settings_gains (AttitudeSettingsGet ce)" and "init st' = 1"
      by simp_all
    from r h show "filter is_settings_read (new_events st st') =
        [AttitudeSettingsAccelKiGet, AttitudeSettingsAccelKpGet, AttitudeSettingsYawBiasRateGet]"
      by simp
  next
    assume h: "steady ce st \<and> init st \<noteq> 0"
    from g h show "gains st' = gains st" and "init st' = init st"
      by simp_all
    from r h show "filter is_settings_read (new_events st st') = []" by simp
  next
    fix ces st''
    assume h: "steady ce st \<and> init st = 0 \<and> all_steady ces st
            \<and> run lib (map Cycle ces) st' = Some st''"
    from g h have g1: "gains st' = settings_gains (AttitudeSettingsGet ce)" "init st' = 1"
      by simp_all
    from cycle_frame [OF assms] obtain sev bev where
      "zero_during_arming st' = zero_during_arming st" by blast
    then have "steady c st' = steady c st" for c
      by (rule steady_same_flag)
    with h have rest: "all_steady ces st'"
      by (simp add: all_steady_def)
    have i: "init st' \<noteq> 0" using g1 by simp
    have rn: "run lib (map Cycle ces) st' = Some st''" using h by simp
    from steady_run [OF rn i rest] obtain es where
      g2: "gains st'' = gains st'" and es: "events st'' = events st' @ es"
        "filter is_settings_read es = []"
      by blast
    have ne: "new_events st st'' = new_events st st' @ es"
      using cycle_events_extend [OF assms] es(1) by (rule new_events_trans)
    show "gains st'' = settings_gains (AttitudeSettingsGet ce)"
      using g1 g2 by simp
    show "filter is_settings_read (new_events st st'') =
        [AttitudeSettingsAccelKiGet, AttitudeSettingsAccelKpGet, AttitudeSettingsYawBiasRateGet]"
      using r h es(2) by (simp add: ne)
  }
qed

text \<open>
  C6.  When both FIFOs deliver samples, the iteration of the task loop returns, and: if
  the tick count is inside the window (first read below 7000, second above 1000; for one
  tick value \<open>t\<close>, \<open>1000 < t < 7000\<close>), or if zero-during-arming is enabled and the vehicle
  is arming, the gains in force are \<open>Kp = 1\<close>, \<open>Ki = 0.9\<close> and yaw bias rate 0.23, whatever
  the settings.  Otherwise (in particular for \<open>t \<ge> 7000\<close> and not arming), if the settings
  are not loaded yet, the iteration reads the three gains from the settings object, once
  each, and marks them loaded; if they are loaded it reads nothing and keeps the gains.
  Over the entry iteration followed by any number of further steady iterations the gains
  are the ones read on entry and the settings have been read exactly once.
\<close>

theorem gain_scheduling:
  assumes "fifo_delivers (PIOS_BMA180_ReadFifo (sensors ce)) k xs" and "xs \<noteq> []"
    and "fifo_delivers (PIOS_MPU6050_ReadFifo (sensors ce)) k' ys" and "ys \<noteq> []"
  shows "\<exists>st'. AttitudeTask_cycle lib ce st = Some st'
    \<and> (startup_window ce \<or> arming_zero ce st \<longrightarrow>
            gains st' = (Fin 1, Fin (9 / 10), Fin (23 / 100)) \<and> init st' = 0
            \<and> filter is_settings_read (new_events st st') = [])
    \<and> (steady ce st \<and> init st = 0 \<longrightarrow>
            gains st' = settings_gains (AttitudeSettingsGet ce) \<and> init st' = 1
            \<and> filter is_settings_read (new_events st st') =
                [AttitudeSettingsAccelKiGet, AttitudeSettingsAccelKpGet, AttitudeSettingsYawBiasRateGet])
    \<and> (steady ce st \<and> init st \<noteq> 0 \<longrightarrow>
            gains st' = gains st \<and> init st' = init st
            \<and> filter is_settings_read (new_events st st') = [])
    \<and> (\<forall>ces st''. steady ce st \<and> init st = 0 \<and> all_steady ces st
            \<and> run lib (map Cycle ces) st' = Some st'' \<longrightarrow>
            gains st'' = settings_gains (AttitudeSettingsGet ce)
            \<and> filter is_settings_read (new_events st st'') =
                [AttitudeSettingsAccelKiGet, AttitudeSettingsAccelKpGet, AttitudeSettingsYawBiasRateGet])"
proof -
  from cycle_returns [OF assms] obtain st' where c: "AttitudeTask_cycle lib ce st = Some st'"
    by blast
  show ?thesis
    by (rule exI [of _ st'], rule conjI [OF c cycle_schedule [OF c]])
qed

lemma example_cycle_steady: "steady (example_cycle 8000) s" "steady (example_cycle 9000) s"
  by (simp_all add: steady_def startup_window_def arming_zero_def example_cycle_def)

lemma example_cycle_delivers:
  "fifo_delivers (PIOS_BMA180_ReadFifo (sensors (example_cycle t))) 0
      [accel_sample 1 2 (- 3), accel_sample 3 2 (- 5)]"
  "fifo_delivers (PIOS_MPU6050_ReadFifo (sensors (example_cycle t))) 0 [gyro_sample 0 0 0]"
  by (simp_all add: example_cycle_def example_sensors_def fifo_script_delivers)

theorem gain_scheduling_witness:
  "fifo_delivers (PIOS_BMA180_ReadFifo (sensors (example_cycle 3000))) 0
      [accel_sample 1 2 (- 3), accel_sample 3 2 (- 5)]
   \<and> fifo_delivers (PIOS_MPU6050_ReadFifo (sensors (example_cycle 3000))) 0 [gyro_sample 0 0 0]
   \<and> (\<exists>st1 st2 st3.
     AttitudeTask_cycle example_libs (example_cycle 3000) example_state = Some st1
     \<and> startup_window (example_cycle 3000)
     \<and> gains st1 = (Fin 1, Fin (9 / 10), Fin (23 / 100))
     \<and> AttitudeTask_cycle example_libs (example_cycle 8000) st1 = Some st2
     \<and> steady (example_cycle 8000) st1 \<and> init st1 = 0
     \<and> gains st2 = settings_gains example_settings
     \<and> filter is_settings_read (new_events st1 st2) =
          [AttitudeSettingsAccelKiGet, AttitudeSettingsAccelKpGet, AttitudeSettingsYawBiasRateGet]
     \<and> run example_libs (map Cycle [example_cycle 9000]) st2 = Some st3
     \<and> gains st3 = settings_gains example_settings
     \<and> filter is_settings_read (new_events st1 st3) =
          [AttitudeSettingsAccelKiGet, AttitudeSettingsAccelKpGet, AttitudeSettingsYawBiasRateGet])"
proof -
  let ?gets = "[AttitudeSettingsAccelKiGet, AttitudeSettingsAccelKpGet, AttitudeSettingsYawBiasRateGet]"
  have w: "startup_window (example_cycle 3000)"
    by (simp add: startup_window_def example_cycle_def)
  have set: "AttitudeSettingsGet (example_cycle 8000) = example_settings"
    by (simp add: example_cycle_def)
  from gain_scheduling [where lib = example_libs and st = example_state,
      OF example_cycle_delivers(1) [of 3000] _ example_cycle_delivers(2) [of 3000]] w
  obtain st1 where c1: "AttitudeTask_cycle example_libs (example_cycle 3000) example_state = Some st1"
    and g1: "gains st1 = (Fin 1, Fin (9 / 10), Fin (23 / 100))" and i1: "init st1 = 0"
    by auto
  have s2: "steady (example_cycle 8000) st1" by (rule example_cycle_steady)
  from gain_scheduling [where lib = example_libs and st = st1,
      OF example_cycle_delivers(1) [of 8000] _ example_cycle_delivers(2) [of 8000]] s2 i1
  obtain st2 where c2: "AttitudeTask_cycle example_libs (example_cycle 8000) st1 = Some st2"
    and g2: "gains st2 = settings_gains example_settings"
      "filter is_settings_read (new_events st1 st2) = ?gets"
    and all: "\<forall>ces st''. steady (example_cycle 8000) st1 \<and> init st1 = 0 \<and> all_steady ces st1
            \<and> run example_libs (map Cycle ces) st2 = Some st'' \<longrightarrow>
            gains st'' = settings_gains (AttitudeSettingsGet (example_cycle 8000))
            \<and> filter is_settings_read (new_events st1 st'') = ?gets"
    by (auto simp: set)
  obtain st3 where c3: "AttitudeTask_cycle example_libs (example_cycle 9000) st2 = Some st3"
    using example_cycle_returns by blast
  have s3: "all_steady [example_cycle 9000] st1"
    by (simp add: all_steady_def example_cycle_steady)
  have r3: "run example_libs (map Cycle [example_cycle 9000]) st2 = Some st3"
    by (simp add: c3)
  from all [rule_format, of "[example_cycle 9000]" st3] s2 i1 s3 r3
  have g3: "gains st3 = settings_gains example_settings"
    "filter is_settings_read (new_events st1 st3) = ?gets"
    by (simp_all add: set)
  have "AttitudeTask_cycle example_libs (example_cycle 3000) example_state = Some st1
     \<and> startup_window (example_cycle 3000)
     \<and> gains st1 = (Fin 1, Fin (9 / 10), Fin (23 / 100))
     \<and> AttitudeTask_cycle example_libs (example_cycle 8000) st1 = Some st2
     \<and> steady (example_cycle 8000) st1 \<and> init st1 = 0
     \<and> gains st2 = settings_gains example_settings
     \<and> filter is_settings_read (new_events st1 st2) = ?gets
     \<and> run example_libs (map Cycle [example_cycle 9000]) st2 = Some st3
     \<and> gains st3 = settings_gains example_settings
     \<and> filter is_settings_read (new_events st1 st3) = ?gets"
    using c1 w g1 c2 s2 i1 g2 r3 g3 by simp
  then have "\<exists>st1 st2 st3.
     AttitudeTask_cycle example_libs (example_cycle 3000) example_state = Some st1
     \<and> startup_window (example_cycle 3000)
     \<and> gains st1 = (Fin 1, Fin (9 / 10), Fin (23 / 100))
     \<and> AttitudeTask_cycle example_libs (example_cycle 8000) st1 = Some st2
     \<and> steady (example_cycle 8000) st1 \<and> init st1 = 0
     \<and> gains st2 = settings_gains example_settings
     \<and> filter is_settings_read (new_events st1 st2) = ?gets
     \<and> run example_libs (map Cycle [example_cycle 9000]) st2 = Some st3
     \<and> gains st3 = settings_gains example_settings
     \<and> filter is_settings_read (new_events st1 st3) = ?gets"
    by (intro exI)
  with example_cycle_delivers [of 3000] show ?thesis by (intro conjI)
qed

end
